theory Spec2Isabelle
  imports Complex_Main
begin

section \<open>Steel plate: weight, geometry, outline and preview (teste12.py)\<close>

text \<open>
  A Python float is an IEEE 754 binary64 number. The weight functions compute with floats,
  and their arithmetic is modelled with its rounding: a value is a real number, plus or
  minus infinity, or NaN, and every operation returns the exact result rounded to the
  nearest number of the format, ties to even. The two zeros of the format are one value
  here: Python's \<^verbatim>\<open>==\<close> does not tell them apart, and no operation of the program does.

  The geometry functions do no arithmetic on the dimensions, they only copy them. There a
  dimension is the real number that a finite float stands for. The mesh of the STL library
  keeps its coordinates as 32-bit floats (binary32), so a coordinate is rounded to that
  format when it is stored into the mesh.
\<close>

subsection \<open>Floating-point numbers\<close>

datatype ieee = Fin real | PInf | NInf | NaN

text \<open>A finite float in the geometry functions: the real number it stands for.\<close>

type_synonym pyfloat = real

text \<open>The largest power of two that is at most \<open>a\<close>, for a positive \<open>a\<close>.\<close>

function binade :: "real \<Rightarrow> real" where
  "binade a =
     (if a \<le> 0 then 1
      else if 2 \<le> a then 2 * binade (a / 2)
      else if a < 1 then binade (2 * a) / 2
      else 1)"
  by pat_completeness auto
termination
proof (relation "measure (\<lambda>a. if 1 \<le> a then nat \<lfloor>a\<rfloor> else nat \<lceil>1 / a\<rceil> + 1)")
  show "wf (measure (\<lambda>a::real. if 1 \<le> a then nat \<lfloor>a\<rfloor> else nat \<lceil>1 / a\<rceil> + 1))"
    by simp
next
  fix a :: real
  assume "\<not> a \<le> 0" "2 \<le> a"
  then have "\<lfloor>a / 2\<rfloor> < \<lfloor>a\<rfloor>"
    by linarith
  with \<open>2 \<le> a\<close>
  show "(a / 2, a) \<in> measure (\<lambda>a. if 1 \<le> a then nat \<lfloor>a\<rfloor> else nat \<lceil>1 / a\<rceil> + 1)"
    by simp
next
  fix a :: real
  assume a: "\<not> a \<le> 0" "\<not> 2 \<le> a" "a < 1"
  then have y: "1 < 1 / a"
    by simp
  show "(2 * a, a) \<in> measure (\<lambda>a. if 1 \<le> a then nat \<lfloor>a\<rfloor> else nat \<lceil>1 / a\<rceil> + 1)"
  proof (cases "1 \<le> 2 * a")
    case True
    with a have "\<lfloor>2 * a\<rfloor> = 1"
      by linarith
    moreover from y have "2 \<le> \<lceil>1 / a\<rceil>"
      by linarith
    ultimately show ?thesis
      using True a by simp
  next
    case False
    with a have "2 < 1 / a"
      by (simp add: field_simps)
    moreover have "1 / (2 * a) = (1 / a) / 2"
      by simp
    ultimately have "\<lceil>1 / (2 * a)\<rceil> < \<lceil>1 / a\<rceil>" and "0 < \<lceil>1 / a\<rceil>"
      by linarith+
    with False a show ?thesis
      by simp
  qed
qed

declare binade.simps [simp del]

text \<open>Rounding to the nearest integer, a tie going to the even one.\<close>

definition rne :: "real \<Rightarrow> int" where
  "rne q =
     (let f = \<lfloor>q\<rfloor>; d = q - of_int f
      in if d < 1 / 2 then f else if 1 / 2 < d then f + 1 else if even f then f else f + 1)"

text \<open>
  Rounding a real number to a binary format with \<open>p\<close> significant bits, smallest normal
  number \<open>tiny\<close> and overflow threshold \<open>huge\<close>. The magnitude is rounded to a multiple
  of the spacing \<open>u\<close> of the format at that magnitude (constant below \<open>tiny\<close>, where the
  numbers are subnormal); a rounded magnitude of \<open>huge\<close> or more overflows to infinity.
\<close>

definition round_to :: "nat \<Rightarrow> real \<Rightarrow> real \<Rightarrow> real \<Rightarrow> ieee" where
  "round_to p tiny huge v =
     (if v = 0 then Fin 0
      else
        let a = \<bar>v\<bar>;
            u = max (binade a) tiny / 2 ^ (p - 1);
            r = of_int (rne (a / u)) * u
        in if huge \<le> r then (if 0 < v then PInf else NInf)
           else Fin (if 0 < v then r else - r))"

text \<open>binary64, the Python float: 53 bits, exponents from -1022 to 1023.\<close>

definition round64 :: "real \<Rightarrow> ieee" where
  "round64 v = round_to 53 (1 / 2 ^ 1022) (2 ^ 1024) v"

text \<open>binary32, the element type of the mesh array: 24 bits, exponents from -126 to 127.\<close>

definition round32 :: "real \<Rightarrow> ieee" where
  "round32 v = round_to 24 (1 / 2 ^ 126) (2 ^ 128) v"

datatype py_error = IndexError | KeyError | ZeroDivisionError

text \<open>The product \<^verbatim>\<open>x * y\<close> of two floats.\<close>

fun fmul :: "ieee \<Rightarrow> ieee \<Rightarrow> ieee" where
  "fmul (Fin a) (Fin b) = round64 (a * b)"
| "fmul (Fin a) PInf = (if a = 0 then NaN else if 0 < a then PInf else NInf)"
| "fmul (Fin a) NInf = (if a = 0 then NaN else if 0 < a then NInf else PInf)"
| "fmul PInf (Fin b) = (if b = 0 then NaN else if 0 < b then PInf else NInf)"
| "fmul NInf (Fin b) = (if b = 0 then NaN else if 0 < b then NInf else PInf)"
| "fmul PInf PInf = PInf"
| "fmul PInf NInf = NInf"
| "fmul NInf PInf = NInf"
| "fmul NInf NInf = PInf"
| "fmul NaN y = NaN"
| "fmul x NaN = NaN"

text \<open>The quotient \<^verbatim>\<open>x / y\<close> of two floats; Python raises ZeroDivisionError on a zero divisor.\<close>

fun fdiv :: "ieee \<Rightarrow> ieee \<Rightarrow> py_error + ieee" where
  "fdiv x (Fin b) =
     (if b = 0 then Inl ZeroDivisionError
      else Inr (case x of
                  Fin a \<Rightarrow> round64 (a / b)
                | PInf \<Rightarrow> (if 0 < b then PInf else NInf)
                | NInf \<Rightarrow> (if 0 < b then NInf else PInf)
                | NaN \<Rightarrow> NaN))"
| "fdiv (Fin a) PInf = Inr (Fin 0)"
| "fdiv (Fin a) NInf = Inr (Fin 0)"
| "fdiv x y = Inr NaN"

subsection \<open>Indexing\<close>

text \<open>
  \<^verbatim>\<open>xs[i]\<close> on a Python list or along the first axis of a numpy array: an index from
  \<open>-len\<close> up to \<open>len - 1\<close> is accepted, a negative one counting from the end, and any
  other index raises IndexError.
\<close>

definition getitem :: "'a list \<Rightarrow> int \<Rightarrow> py_error + 'a" where
  "getitem xs i =
     (if 0 \<le> i \<and> i < int (length xs) then Inr (xs ! nat i)
      else if - int (length xs) \<le> i \<and> i < 0 then Inr (xs ! nat (int (length xs) + i))
      else Inl IndexError)"

text \<open>\<^verbatim>\<open>xs[i] = v\<close> with a loop counter \<open>i\<close>, which is never negative.\<close>

definition setitem :: "'a list \<Rightarrow> nat \<Rightarrow> 'a \<Rightarrow> py_error + 'a list" where
  "setitem xs i v = (if i < length xs then Inr (xs[i := v]) else Inl IndexError)"

subsection \<open>Material table\<close>

text \<open>
  The dictionary \<^verbatim>\<open>steel_types\<close>: steel grade to density in grams per cubic centimetre.
  A decimal literal of the source is the float nearest to it.
\<close>

definition steel_types :: "string \<rightharpoonup> ieee" where
  "steel_types = map_of
     [(''SAE 1020'', round64 7.85),
      (''SAE 1045'', round64 7.85),
      (''ASTM A36'', round64 7.85),
      (''SAE 4140'', round64 7.85),
      (''SAE 8620'', round64 7.85),
      (''AISI 304'', round64 8.00),
      (''AISI 316'', round64 7.98),
      (''SAE 4340'', round64 7.85),
      (''SAE 1212'', round64 7.85),
      (''AISI 420'', round64 7.70)]"

subsection \<open>Weight calculation\<close>

text \<open>
  \<^verbatim>\<open>def calculate_volume(width, length, thickness): return width * length * thickness\<close>,
  two float products, the left one first.
\<close>

definition calculate_volume :: "ieee \<Rightarrow> ieee \<Rightarrow> ieee \<Rightarrow> ieee" where
  "calculate_volume width len thickness = fmul (fmul width len) thickness"

text \<open>
  \<^verbatim>\<open>volume_cm3 = volume / 1000.0\<close> and then \<^verbatim>\<open>return volume_cm3 * density\<close>.
\<close>

definition calculate_weight :: "ieee \<Rightarrow> ieee \<Rightarrow> py_error + ieee" where
  "calculate_weight volume density =
     (case fdiv volume (Fin 1000.0) of
        Inl e \<Rightarrow> Inl e
      | Inr volume_cm3 \<Rightarrow> Inr (fmul volume_cm3 density))"

text \<open>
  The weight computed by the handler of the generate button:
  \<^verbatim>\<open>volume = calculate_volume(width, length, thickness)\<close>,
  \<^verbatim>\<open>density = steel_types[steel_type]\<close>,
  \<^verbatim>\<open>weight = calculate_weight(volume, density) / 1000\<close>.
  The dictionary lookup raises KeyError on a name that is not in the table. The message
  shows this value with three decimals; the formatting is not modelled.
\<close>

definition generate_weight :: "ieee \<Rightarrow> ieee \<Rightarrow> ieee \<Rightarrow> string \<Rightarrow> py_error + ieee" where
  "generate_weight width len thickness steel_type =
     (let volume = calculate_volume width len thickness in
      case steel_types steel_type of
        None \<Rightarrow> Inl KeyError
      | Some density \<Rightarrow>
         (case calculate_weight volume density of
            Inl e \<Rightarrow> Inl e
          | Inr grams \<Rightarrow> fdiv grams (Fin 1000)))"

subsection \<open>Plate geometry\<close>

text \<open>The mesh object of the STL library, reduced to its triangle array \<^verbatim>\<open>vectors\<close>
  (one row of three 3D points per triangle), an array of 32-bit floats.\<close>

record mesh =
  vectors :: "ieee list list list"

text \<open>The local array \<^verbatim>\<open>vertices\<close> of \<^verbatim>\<open>create_plate\<close>.\<close>

definition plate_vertices :: "pyfloat \<Rightarrow> pyfloat \<Rightarrow> pyfloat \<Rightarrow> pyfloat list list" where
  "plate_vertices width len thickness =
     [[0, 0, 0],
      [width, 0, 0],
      [width, len, 0],
      [0, len, 0],
      [0, 0, thickness],
      [width, 0, thickness],
      [width, len, thickness],
      [0, len, thickness]]"

text \<open>The local array \<^verbatim>\<open>faces\<close> of \<^verbatim>\<open>create_plate\<close>.\<close>

definition plate_faces :: "int list list" where
  "plate_faces =
     [[0, 3, 1], [1, 3, 2],
      [4, 5, 7], [5, 6, 7],
      [0, 1, 4], [1, 5, 4],
      [1, 2, 5], [2, 6, 5],
      [2, 3, 6], [3, 7, 6],
      [3, 0, 7], [0, 4, 7]]"

text \<open>
  The inner loop \<^verbatim>\<open>for j in range(3): plate_mesh.vectors[i][j] = vertices[face[j], :]\<close>,
  on the remaining values of \<open>j\<close>. Each read and each write can raise IndexError. The
  row read from the vertex array holds 64-bit floats; the assignment converts each of them
  to the 32-bit element type of the mesh array.
\<close>

fun fill_face ::
  "pyfloat list list \<Rightarrow> int list \<Rightarrow> nat \<Rightarrow> nat list \<Rightarrow> ieee list list list \<Rightarrow>
   py_error + ieee list list list" where
  "fill_face vertices face i [] vecs = Inr vecs"
| "fill_face vertices face i (j # js) vecs =
     (case getitem face (int j) of
        Inl e \<Rightarrow> Inl e
      | Inr k \<Rightarrow>
         (case getitem vertices k of
            Inl e \<Rightarrow> Inl e
          | Inr row \<Rightarrow>
             (case getitem vecs (int i) of
                Inl e \<Rightarrow> Inl e
              | Inr tri \<Rightarrow>
                 (case setitem tri j (map round32 row) of
                    Inl e \<Rightarrow> Inl e
                  | Inr tri' \<Rightarrow>
                     (case setitem vecs i tri' of
                        Inl e \<Rightarrow> Inl e
                      | Inr vecs' \<Rightarrow> fill_face vertices face i js vecs')))))"

text \<open>The outer loop \<^verbatim>\<open>for i, face in enumerate(faces)\<close>, on the remaining pairs.\<close>

fun fill_mesh ::
  "pyfloat list list \<Rightarrow> (nat \<times> int list) list \<Rightarrow> ieee list list list \<Rightarrow>
   py_error + ieee list list list" where
  "fill_mesh vertices [] vecs = Inr vecs"
| "fill_mesh vertices ((i, face) # rest) vecs =
     (case fill_face vertices face i [0..<3] vecs of
        Inl e \<Rightarrow> Inl e
      | Inr vecs' \<Rightarrow> fill_mesh vertices rest vecs')"

text \<open>
  \<^verbatim>\<open>create_plate\<close>: the mesh starts as \<^verbatim>\<open>faces.shape[0]\<close> all-zero triangles, the loops
  fill it, and the function returns the pair of the mesh and the vertex array.
\<close>

definition create_plate :: "pyfloat \<Rightarrow> pyfloat \<Rightarrow> pyfloat \<Rightarrow> py_error + (mesh \<times> pyfloat list list)" where
  "create_plate width len thickness =
     (let vertices = plate_vertices width len thickness;
          faces = plate_faces;
          zeros = replicate (length faces) (replicate 3 (replicate 3 (Fin 0)))
      in case fill_mesh vertices (enumerate 0 faces) zeros of
           Inl e \<Rightarrow> Inl e
         | Inr vecs \<Rightarrow> Inr (\<lparr>vectors = vecs\<rparr>, vertices))"

subsection \<open>Outline export\<close>

text \<open>
  The loop \<^verbatim>\<open>for i in range(4)\<close> of \<^verbatim>\<open>create_dxf_from_numpy\<close>, on the remaining values
  of \<open>i\<close>: \<^verbatim>\<open>msp.add_line(start_point[:2], end_point[:2])\<close> appends one line, given by
  its two end points, to the model space.
\<close>

fun add_lines ::
  "pyfloat list list \<Rightarrow> nat list \<Rightarrow> (pyfloat list \<times> pyfloat list) list \<Rightarrow>
   py_error + (pyfloat list \<times> pyfloat list) list" where
  "add_lines vertices [] msp = Inr msp"
| "add_lines vertices (i # is) msp =
     (case getitem vertices (int i) of
        Inl e \<Rightarrow> Inl e
      | Inr start_point \<Rightarrow>
         (case getitem vertices (int ((i + 1) mod 4)) of
            Inl e \<Rightarrow> Inl e
          | Inr end_point \<Rightarrow>
             add_lines vertices is (msp @ [(take 2 start_point, take 2 end_point)])))"

text \<open>
  \<^verbatim>\<open>create_dxf_from_numpy\<close>: the result is the content of the model space of the new
  document, the lines in the order they were added, which is what is saved to the file.
\<close>

definition create_dxf_from_numpy ::
  "pyfloat list list \<Rightarrow> py_error + (pyfloat list \<times> pyfloat list) list" where
  "create_dxf_from_numpy vertices = add_lines vertices [0..<4] []"

subsection \<open>Preview\<close>

text \<open>\<^verbatim>\<open>list(range(start, stop, step))\<close> for a positive step (the program uses 3).\<close>

definition py_range :: "nat \<Rightarrow> nat \<Rightarrow> nat \<Rightarrow> nat list" where
  "py_range start stop step = map (\<lambda>q. start + q * step) [0..<(stop - start + step - 1) div step]"

text \<open>The data of the \<^verbatim>\<open>Mesh3d\<close> trace that \<^verbatim>\<open>mesh_to_plotly\<close> builds.\<close>

record mesh3d =
  x :: "ieee list"
  y :: "ieee list"
  z :: "ieee list"
  i :: "nat list"
  j :: "nat list"
  k :: "nat list"
  opacity :: pyfloat

text \<open>
  \<^verbatim>\<open>x, y, z = plate_mesh.vectors.reshape(-1, 3).T\<close>: the triangles are laid end to end
  as rows of three coordinates, and the three columns of that array are x, y and z.
  A mesh of the library always has three points of three coordinates per triangle, so
  every row has the entries 0, 1 and 2. The layout of the figure is a constant and is
  left out.
\<close>

definition mesh_to_plotly :: "mesh \<Rightarrow> pyfloat \<Rightarrow> mesh3d" where
  "mesh_to_plotly plate_mesh opacity_value =
     (let rows = concat (vectors plate_mesh);
          xs = map (\<lambda>r. r ! 0) rows;
          ys = map (\<lambda>r. r ! 1) rows;
          zs = map (\<lambda>r. r ! 2) rows
      in \<lparr>x = xs, y = ys, z = zs,
          i = py_range 0 (length xs) 3,
          j = py_range 1 (length ys) 3,
          k = py_range 2 (length zs) 3,
          opacity = opacity_value\<rparr>)"

subsection \<open>Vocabulary of the winding property\<close>

text \<open>
  Vectors are lists of three coordinates. The normal of a triangle is taken the way the
  STL format does: the cross product of the edges from the first corner to the second and
  from the first corner to the third.
\<close>

definition vsub :: "pyfloat list \<Rightarrow> pyfloat list \<Rightarrow> pyfloat list" where
  "vsub a b = map2 (-) a b"

definition dot :: "pyfloat list \<Rightarrow> pyfloat list \<Rightarrow> pyfloat" where
  "dot a b = sum_list (map2 (*) a b)"

fun cross :: "pyfloat list \<Rightarrow> pyfloat list \<Rightarrow> pyfloat list" where
  "cross [a1, a2, a3] [b1, b2, b3] = [a2 * b3 - a3 * b2, a3 * b1 - a1 * b3, a1 * b2 - a2 * b1]"
| "cross a b = []"

definition triangle_normal :: "pyfloat list list \<Rightarrow> pyfloat list" where
  "triangle_normal tri = cross (vsub (tri ! 1) (tri ! 0)) (vsub (tri ! 2) (tri ! 0))"

definition face_normal :: "pyfloat list list \<Rightarrow> int list \<Rightarrow> pyfloat list" where
  "face_normal vertices face = triangle_normal (map (\<lambda>v. vertices ! nat v) face)"

text \<open>
  A triangle on the surface of the box is wound outward when its normal has a positive
  scalar product with the vector from the centre of the box to a corner of the triangle.
\<close>

definition points_outward :: "pyfloat \<Rightarrow> pyfloat \<Rightarrow> pyfloat \<Rightarrow> pyfloat list list \<Rightarrow> bool" where
  "points_outward width len thickness tri =
     (0 < dot (triangle_normal tri) (vsub (tri ! 0) [width / 2, len / 2, thickness / 2]))"

section \<open>Properties\<close>

subsection \<open>Rounding\<close>

lemma binade_bounds: "0 < a \<Longrightarrow> binade a \<le> a \<and> a < 2 * binade a"
proof (induction a rule: binade.induct)
  case (1 a)
  then show ?case
    by (subst (1 2) binade.simps) (auto simp add: field_simps)
qed


lemma binade_pos: "0 < binade a"
proof (induction a rule: binade.induct)
  case (1 a)
  then show ?case
    by (subst binade.simps) auto
qed

lemma binade_ge_one: "1 \<le> a \<Longrightarrow> 1 \<le> binade a"
proof (induction a rule: binade.induct)
  case (1 a)
  then show ?case
    by (subst binade.simps) auto
qed

lemma binade_ge_pow: "2 ^ m \<le> a \<Longrightarrow> 2 ^ m \<le> binade a"
proof (induction m arbitrary: a)
  case 0
  then show ?case
    using binade_ge_one by simp
next
  case (Suc m)
  have one: "(1::real) \<le> 2 ^ m"
    by simp
  from Suc.prems have p: "2 * 2 ^ m \<le> a"
    by simp
  from p one have "2 \<le> a"
    by linarith
  moreover from p have "2 ^ m \<le> a / 2"
    by simp
  ultimately have "2 \<le> a" and "2 ^ m \<le> a / 2"
    by blast+
  with Suc.IH [of "a / 2"] show ?case
    by (subst binade.simps) simp
qed

lemma rne_error: "\<bar>of_int (rne q) - q\<bar> \<le> 1 / 2"
  unfolding rne_def Let_def by (auto; linarith)

lemma rne_ge_floor: "\<lfloor>q\<rfloor> \<le> rne q"
  unfolding rne_def Let_def by auto

lemma rne_eval:
  assumes "\<bar>q - of_int n\<bar> < 1 / 2"
  shows "rne q = n"
proof (cases "of_int n \<le> q")
  case True
  with assms have "\<lfloor>q\<rfloor> = n"
    by (intro floor_unique) linarith+
  with assms True show ?thesis
    by (simp add: rne_def)
next
  case False
  with assms have "\<lfloor>q\<rfloor> = n - 1"
    by (intro floor_unique) (simp, linarith+)
  with assms False show ?thesis
    by (simp add: rne_def)
qed

lemma rne_of_int: "rne (of_int n) = n"
  by (rule rne_eval) simp


lemma round_to_error:
  assumes p: "0 < p" and tiny: "0 < tiny" "tiny \<le> \<bar>v\<bar>"
    and r: "round_to p tiny huge v = Fin r"
  shows "\<bar>r - v\<bar> \<le> \<bar>v\<bar> / 2 ^ p"
proof -
  define a where "a = \<bar>v\<bar>"
  define m where "m = max (binade a) tiny"
  define u where "u = m / 2 ^ (p - 1)"
  define n where "n = rne (a / u)"
  from tiny have a: "0 < a" and v: "v \<noteq> 0"
    by (auto simp add: a_def)
  from a binade_bounds [of a] tiny have m: "0 < m" "m \<le> a"
    by (simp_all add: m_def a_def)
  then have u: "0 < u"
    by (simp add: u_def)
  from p have pp: "(2::real) ^ p = 2 * 2 ^ (p - 1)"
    by (cases p) simp_all
  from r v have rr: "r = (if 0 < v then of_int n * u else - (of_int n * u))"
    by (simp add: round_to_def Let_def n_def u_def m_def a_def split: if_splits)
  then have "\<bar>r - v\<bar> = \<bar>of_int n * u - a\<bar>"
    by (auto simp add: a_def)
  also have "\<dots> = \<bar>of_int n - a / u\<bar> * u"
  proof -
    from u have "of_int n * u - a = (of_int n - a / u) * u"
      by (simp add: field_simps)
    with u show ?thesis
      by (simp add: abs_mult)
  qed
  also from rne_error [of "a / u"] u have "\<dots> \<le> (1 / 2) * u"
    by (intro mult_right_mono) (simp_all add: n_def)
  also from pp have "\<dots> = m / 2 ^ p"
    by (simp add: u_def)
  also from m have "\<dots> \<le> a / 2 ^ p"
    by (simp add: divide_right_mono)
  finally show ?thesis
    by (simp add: a_def)
qed

lemma round_to_finite:
  assumes p: "0 < p" and tiny: "0 < tiny"
    and small: "max \<bar>v\<bar> tiny * (1 + 1 / 2 ^ p) < huge"
  shows "\<exists>r. round_to p tiny huge v = Fin r"
proof (cases "v = 0")
  case True
  then show ?thesis
    by (simp add: round_to_def)
next
  case False
  define a where "a = \<bar>v\<bar>"
  define m where "m = max (binade a) tiny"
  define u where "u = m / 2 ^ (p - 1)"
  define n where "n = rne (a / u)"
  from False have a: "0 < a"
    by (simp add: a_def)
  from a binade_bounds [of a] tiny have m: "0 < m" "m \<le> max a tiny"
    by (auto simp add: m_def)
  then have u: "0 < u"
    by (simp add: u_def)
  from p have pp: "(2::real) ^ p = 2 * 2 ^ (p - 1)"
    by (cases p) simp_all
  from rne_error [of "a / u"] have "of_int n \<le> a / u + 1 / 2"
    unfolding n_def by linarith
  with u have "of_int n * u \<le> (a / u + 1 / 2) * u"
    by (intro mult_right_mono) simp_all
  also from u have "\<dots> = a + u / 2"
    by (simp add: field_simps)
  also from pp have "\<dots> = a + m / 2 ^ p"
    by (simp add: u_def)
  also from m have "\<dots> \<le> max a tiny + max a tiny / 2 ^ p"
    by (intro add_mono divide_right_mono) simp_all
  also have "\<dots> = max a tiny * (1 + 1 / 2 ^ p)"
    by (simp add: field_simps)
  finally have "of_int n * u < huge"
    using small by (simp add: a_def)
  with False show ?thesis
    by (simp add: round_to_def Let_def n_def u_def m_def a_def)
qed

lemma round_to_overflow:
  assumes p: "0 < p" and tiny: "tiny \<le> 1" and huge: "2 ^ e \<le> v"
  shows "round_to p tiny (2 ^ e) v = PInf"
proof -
  have one: "(1::real) \<le> 2 ^ e"
    by simp
  with huge have v: "0 < v" "\<bar>v\<bar> = v"
    by linarith+
  define b where "b = binade v"
  define u where "u = b / 2 ^ (p - 1)"
  from huge have b: "2 ^ e \<le> b"
    unfolding b_def by (rule binade_ge_pow)
  with one tiny have m: "max b tiny = b" and bpos: "0 < b"
    by linarith+
  then have u: "0 < u"
    by (simp add: u_def)
  from v binade_bounds [of v] have "b \<le> v"
    by (simp add: b_def)
  with u have "b / u \<le> v / u"
    by (simp add: divide_right_mono)
  moreover from bpos have "b / u = of_int (2 ^ (p - 1))"
    by (simp add: u_def)
  ultimately have "of_int (2 ^ (p - 1)) \<le> v / u"
    by simp
  then have "2 ^ (p - 1) \<le> \<lfloor>v / u\<rfloor>"
    by (simp only: le_floor_iff)
  with rne_ge_floor [of "v / u"] have "2 ^ (p - 1) \<le> rne (v / u)"
    by linarith
  then have "(2::real) ^ (p - 1) \<le> of_int (rne (v / u))"
    by (metis of_int_le_iff of_int_numeral of_int_power)
  with u have "2 ^ (p - 1) * u \<le> of_int (rne (v / u)) * u"
    by (intro mult_right_mono) simp_all
  moreover have "2 ^ (p - 1) * u = b"
    by (simp add: u_def)
  ultimately have "2 ^ e \<le> of_int (rne (v / u)) * u"
    using b by linarith
  with v m show ?thesis
    by (simp add: round_to_def Let_def u_def b_def)
qed

lemma round_to_cert:
  assumes "0 < v" and "binade v = b" and "tiny \<le> b"
    and "\<bar>v * 2 ^ (p - 1) / b - of_int n\<bar> < 1 / 2"
    and "of_int n * b / 2 ^ (p - 1) = r" and "r < huge"
  shows "round_to p tiny huge v = Fin r"
proof -
  from assms(2) binade_pos [of v] have b: "0 < b"
    by simp
  from assms(4) have "rne (v * 2 ^ (p - 1) / b) = n"
    by (rule rne_eval)
  with assms b show ?thesis
    by (simp add: round_to_def Let_def max_absorb1 field_simps)
qed

lemma round64_cert:
  assumes "0 < v" and "binade v = b" and "1 / 2 ^ 1022 \<le> b"
    and "\<bar>v * 2 ^ 52 / b - of_int n\<bar> < 1 / 2"
    and "of_int n * b / 2 ^ 52 = r" and "r < 2 ^ 1024"
  shows "round64 v = Fin r"
  unfolding round64_def using assms by (intro round_to_cert [where b = b and n = n]) simp_all

lemma round32_cert:
  assumes "0 < v" and "binade v = b" and "1 / 2 ^ 126 \<le> b"
    and "\<bar>v * 2 ^ 23 / b - of_int n\<bar> < 1 / 2"
    and "of_int n * b / 2 ^ 23 = r" and "r < 2 ^ 128"
  shows "round32 v = Fin r"
  unfolding round32_def using assms by (intro round_to_cert [where b = b and n = n]) simp_all

lemma round32_zero: "round32 0 = Fin 0"
  by (simp add: round32_def round_to_def)

lemma fmul_NaN: "fmul NaN v = NaN"
  by (cases v) simp_all

lemma round64_error:
  assumes "1 / 2 ^ 1022 \<le> \<bar>v\<bar>" and "round64 v = Fin r"
  shows "\<bar>r - v\<bar> \<le> \<bar>v\<bar> / 2 ^ 53"
  using assms unfolding round64_def by (intro round_to_error [where tiny = "1 / 2 ^ 1022"]) simp_all

lemma round64_finite:
  assumes "\<bar>v\<bar> \<le> 2 ^ 1023"
  shows "\<exists>r. round64 v = Fin r"
  unfolding round64_def
proof (rule round_to_finite)
  have "max \<bar>v\<bar> (1 / 2 ^ 1022) \<le> 2 ^ 1023"
    using assms by simp
  then have "max \<bar>v\<bar> (1 / 2 ^ 1022) * (1 + 1 / 2 ^ 53) \<le> 2 ^ 1023 * (1 + 1 / 2 ^ 53)"
    by (intro mult_right_mono) simp_all
  also have "\<dots> < (2::real) ^ 1024"
    by simp
  finally show "max \<bar>v\<bar> (1 / 2 ^ 1022) * (1 + 1 / 2 ^ 53) < 2 ^ 1024" .
qed simp_all

lemma round64_overflow: "2 ^ 1024 \<le> v \<Longrightarrow> round64 v = PInf"
  unfolding round64_def by (rule round_to_overflow) simp_all

lemma round64_zero: "round64 0 = Fin 0"
  by (simp add: round64_def round_to_def)

text \<open>
  The relative error after one more rounded operation: if \<open>p\<close> is \<open>x\<close> up to the
  rounding of \<open>n\<close> operations, then the rounded \<open>p * c\<close> is \<open>x * c\<close> up to the
  rounding of \<open>n + 1\<close> operations, as long as nothing underflows.
\<close>

lemma rounded_step:
  assumes close: "\<bar>p - s\<bar> \<le> ((1 + 1 / 2 ^ 53) ^ n - 1) * \<bar>s\<bar>"
    and small: "(1 + 1 / 2 ^ 53) ^ n - 1 \<le> (1 / 2 :: real)"
    and nounder: "2 / 2 ^ 1022 \<le> \<bar>s * c\<bar>"
    and r: "round64 (p * c) = Fin r"
  shows "\<bar>r - s * c\<bar> \<le> ((1 + 1 / 2 ^ 53) ^ Suc n - 1) * \<bar>s * c\<bar>"
proof -
  define e :: real where "e = 1 / 2 ^ 53"
  define g :: real where "g = (1 + e) ^ n"
  have e: "0 < e" and g: "1 \<le> g"
    by (simp_all add: e_def g_def)
  from close have cl: "\<bar>p - s\<bar> \<le> (g - 1) * \<bar>s\<bar>"
    by (simp add: g_def e_def)
  from small have sm: "g - 1 \<le> 1 / 2"
    by (simp add: g_def e_def)
  from cl have pu: "\<bar>p\<bar> \<le> g * \<bar>s\<bar>"
    by (simp add: algebra_simps)
  from cl sm have "\<bar>s\<bar> - \<bar>p\<bar> \<le> (1 / 2) * \<bar>s\<bar>"
  proof -
    have "(g - 1) * \<bar>s\<bar> \<le> (1 / 2) * \<bar>s\<bar>"
      using sm by (intro mult_right_mono) simp_all
    with cl show ?thesis by linarith
  qed
  then have pl: "\<bar>s\<bar> / 2 \<le> \<bar>p\<bar>"
    by simp
  have "\<bar>s * c\<bar> / 2 = (\<bar>s\<bar> / 2) * \<bar>c\<bar>"
    by (simp add: abs_mult)
  also from pl have "\<dots> \<le> \<bar>p\<bar> * \<bar>c\<bar>"
    by (intro mult_right_mono) simp_all
  finally have "\<bar>s * c\<bar> / 2 \<le> \<bar>p * c\<bar>"
    by (simp add: abs_mult)
  with nounder have "1 / 2 ^ 1022 \<le> \<bar>p * c\<bar>"
    by simp
  from round64_error [OF this r] have re: "\<bar>r - p * c\<bar> \<le> e * \<bar>p * c\<bar>"
    by (simp add: e_def)
  have "\<bar>r - s * c\<bar> \<le> \<bar>r - p * c\<bar> + \<bar>p * c - s * c\<bar>"
    by linarith
  also have "\<bar>p * c - s * c\<bar> = \<bar>p - s\<bar> * \<bar>c\<bar>"
    by (simp add: abs_mult [symmetric] left_diff_distrib)
  also have "\<bar>r - p * c\<bar> + \<bar>p - s\<bar> * \<bar>c\<bar> \<le> e * (g * \<bar>s\<bar> * \<bar>c\<bar>) + (g - 1) * \<bar>s\<bar> * \<bar>c\<bar>"
  proof (intro add_mono)
    from pu have "\<bar>p\<bar> * \<bar>c\<bar> \<le> g * \<bar>s\<bar> * \<bar>c\<bar>"
      by (intro mult_right_mono) simp_all
    with e have "e * (\<bar>p\<bar> * \<bar>c\<bar>) \<le> e * (g * \<bar>s\<bar> * \<bar>c\<bar>)"
      by (intro mult_left_mono) simp_all
    with re show "\<bar>r - p * c\<bar> \<le> e * (g * \<bar>s\<bar> * \<bar>c\<bar>)"
      by (simp add: abs_mult)
    from cl show "\<bar>p - s\<bar> * \<bar>c\<bar> \<le> (g - 1) * \<bar>s\<bar> * \<bar>c\<bar>"
      by (intro mult_right_mono) simp_all
  qed
  also have "\<dots> = ((1 + e) * g - 1) * \<bar>s * c\<bar>"
    by (simp add: abs_mult algebra_simps)
  finally show ?thesis
    by (simp add: g_def e_def)
qed

lemma fmul_Fin_cases: "fmul u v = Fin r \<Longrightarrow> \<exists>a b. u = Fin a \<and> v = Fin b"
  by (cases u; cases v) (auto split: if_splits)

lemma fdiv_Fin_cases: "fdiv u (Fin c) = Inr (Fin r) \<Longrightarrow> \<exists>a. u = Fin a"
  by (cases u) (auto split: if_splits)

subsection \<open>Rounded values of the examples\<close>

lemma round64_7_85: "round64 (157 / 20) = Fin (4419157134357299 / 562949953421312)"
  by (rule round64_cert [where b = "4" and n = 8838314268714598]) (simp_all add: binade.simps)

lemma round64_8: "round64 (8) = Fin (8)"
  by (rule round64_cert [where b = "8" and n = 4503599627370496]) (simp_all add: binade.simps)

lemma round64_7_98: "round64 (399 / 50) = Fin (2246170314151035 / 281474976710656)"
  by (rule round64_cert [where b = "4" and n = 8984681256604140]) (simp_all add: binade.simps)

lemma round64_1: "round64 (1) = Fin (1)"
  by (rule round64_cert [where b = "1" and n = 4503599627370496]) (simp_all add: binade.simps)

lemma round64_1_div_1000: "round64 (1 / 1000) = Fin (1152921504606847 / 1152921504606846976)"
  by (rule round64_cert [where b = "1 / 1024" and n = 4611686018427388]) (simp_all add: binade.simps)

lemma round64_grams_316: "round64 (2589658058194245471988253136645 / 324518553658426726783156020576256) = Fin (575019600422665 / 72057594037927936)"
  by (rule round64_cert [where b = "1 / 128" and n = 4600156803381320]) (simp_all add: binade.simps)

lemma round64_kg_316: "round64 (115003920084533 / 14411518807585587200) = Fin (588820070832809 / 73786976294838206464)"
  by (rule round64_cert [where b = "1 / 131072" and n = 4710560566662472]) (simp_all add: binade.simps)

lemma round64_direct_316: "round64 (449234062830207 / 56294995342131200000) = Fin (4710560566662471 / 590295810358705651712)"
  by (rule round64_cert [where b = "1 / 131072" and n = 4710560566662471]) (simp_all add: binade.simps)

lemma round64_1000: "round64 (1000) = Fin (1000)"
  by (rule round64_cert [where b = "512" and n = 8796093022208000]) (simp_all add: binade.simps)

lemma round64_5000: "round64 (5000) = Fin (5000)"
  by (rule round64_cert [where b = "4096" and n = 5497558138880000]) (simp_all add: binade.simps)

lemma round64_5: "round64 (5) = Fin (5)"
  by (rule round64_cert [where b = "4" and n = 5629499534213120]) (simp_all add: binade.simps)

lemma round64_40: "round64 (40) = Fin (40)"
  by (rule round64_cert [where b = "32" and n = 5629499534213120]) (simp_all add: binade.simps)

lemma round64_40_div_1000: "round64 (1 / 25) = Fin (5764607523034235 / 144115188075855872)"
  by (rule round64_cert [where b = "1 / 32" and n = 5764607523034235]) (simp_all add: binade.simps)

lemma round64_10000: "round64 (10000) = Fin (10000)"
  by (rule round64_cert [where b = "8192" and n = 5497558138880000]) (simp_all add: binade.simps)

lemma round64_100000: "round64 (100000) = Fin (100000)"
  by (rule round64_cert [where b = "65536" and n = 6871947673600000]) (simp_all add: binade.simps)

lemma round64_100: "round64 (100) = Fin (100)"
  by (rule round64_cert [where b = "64" and n = 7036874417766400]) (simp_all add: binade.simps)

lemma round64_800: "round64 (800) = Fin (800)"
  by (rule round64_cert [where b = "512" and n = 7036874417766400]) (simp_all add: binade.simps)

lemma round64_0_1: "round64 (1 / 10) = Fin (3602879701896397 / 36028797018963968)"
  by (rule round64_cert [where b = "1 / 16" and n = 7205759403792794]) (simp_all add: binade.simps)

lemma round64_0_2: "round64 (1 / 5) = Fin (3602879701896397 / 18014398509481984)"
  by (rule round64_cert [where b = "1 / 8" and n = 7205759403792794]) (simp_all add: binade.simps)

lemma round64_0_3: "round64 (3 / 10) = Fin (5404319552844595 / 18014398509481984)"
  by (rule round64_cert [where b = "1 / 4" and n = 5404319552844595]) (simp_all add: binade.simps)

lemma round64_0_1_times_0_2: "round64 (12980742146337070512478121581609 / 649037107316853453566312041152512) = Fin (1441151880758559 / 72057594037927936)"
  by (rule round64_cert [where b = "1 / 64" and n = 5764607523034236]) (simp_all add: binade.simps)

lemma round64_0_1_times_0_2_times_0_3: "round64 (7788445287802242667774843138605 / 1298074214633706907132624082305024) = Fin (6917529027641083 / 1152921504606846976)"
  by (rule round64_cert [where b = "1 / 256" and n = 6917529027641083]) (simp_all add: binade.simps)

lemma round64_3_div_1000: "round64 (3 / 1000) = Fin (3458764513820541 / 1152921504606846976)"
  by (rule round64_cert [where b = "1 / 512" and n = 6917529027641082]) (simp_all add: binade.simps)

lemma round64_3_div_1000_times_0_1: "round64 (12461512460483587259633432490777 / 41538374868278621028243970633760768) = Fin (2767011611056433 / 9223372036854775808)"
  by (rule round64_cert [where b = "1 / 4096" and n = 5534023222112866]) (simp_all add: binade.simps)

lemma round64_1e200: "round64 (100000000000000000000000000000000000000000000000000000000000000000000000000000000000000000000000000000000000000000000000000000000000000000000000000000000000000000000000000000000000000000000000000000000) = Fin (99999999999999996973312221251036165947450327545502362648241750950346848435554075534196338404706251868027512415973882408182135734368278484639385041047239877871023591066789981811181813306167128854888448)"
  by (rule round64_cert [where b = "76545051729020975577310162521900618820659871603466655644272117978380005723696097587725184512638784526308634214455061267843403507870735540391292521535824647434568377082591826884769598224146796816367616" and n = 5883593420661338]) (simp_all add: binade.simps)

lemma round32_0_1: "round32 (3602879701896397 / 36028797018963968) = Fin (13421773 / 134217728)"
  by (rule round32_cert [where b = "1 / 16" and n = 13421773]) (simp_all add: binade.simps)

lemma round32_100: "round32 (100) = Fin (100)"
  by (rule round32_cert [where b = "64" and n = 13107200]) (simp_all add: binade.simps)

lemma round32_10: "round32 (10) = Fin (10)"
  by (rule round32_cert [where b = "8" and n = 10485760]) (simp_all add: binade.simps)

subsection \<open>The mesh-filling loops\<close>

lemma upt_0_3: "[0..<3] = [0, 1, 2]"
  by (simp add: upt_rec)

lemma list3_cases: "length xs = 3 \<Longrightarrow> \<exists>a b c. xs = [a, b, c]"
  by (cases xs; cases "tl xs"; cases "tl (tl xs)") auto

lemma getitem_in_bounds: "0 \<le> v \<Longrightarrow> v < int (length xs) \<Longrightarrow> getitem xs v = Inr (xs ! nat v)"
  by (simp add: getitem_def)

text \<open>
  The inner loop, for a face of three indices that are in bounds: row \<open>n\<close> of the mesh
  becomes the three vertices the face names, in the order of the face, each coordinate
  rounded to binary32, and nothing raises.
\<close>

lemma fill_face_rows:
  assumes n: "n < length vecs" and tri: "length (vecs ! n) = 3" and face: "length face = 3"
    and inb: "\<forall>v \<in> set face. 0 \<le> v \<and> v < int (length vertices)"
  shows "fill_face vertices face n [0..<3] vecs =
           Inr (vecs[n := map (\<lambda>v. map round32 (vertices ! nat v)) face])"
proof -
  from face obtain a b c where f: "face = [a, b, c]"
    using list3_cases by blast
  from tri obtain p q r where t: "vecs ! n = [p, q, r]"
    using list3_cases by blast
  from inb f n t show ?thesis
    by (simp add: upt_0_3 getitem_def setitem_def)
qed

text \<open>
  The outer loop over the faces numbered from \<open>n\<close>: rows \<open>n\<close>, \<open>n + 1\<close>, ... of the mesh
  are replaced, the other rows are kept.
\<close>

lemma fill_mesh_enumerate:
  assumes "\<forall>face \<in> set faces.
             length face = 3 \<and> (\<forall>v \<in> set face. 0 \<le> v \<and> v < int (length vertices))"
    and "n + length faces \<le> length vecs"
    and "\<forall>tri \<in> set vecs. length tri = 3"
  shows "fill_mesh vertices (enumerate n faces) vecs =
           Inr (take n vecs @ map (map (\<lambda>v. map round32 (vertices ! nat v))) faces
                @ drop (n + length faces) vecs)"
  using assms
proof (induction faces arbitrary: n vecs)
  case Nil
  then show ?case by simp
next
  case (Cons face faces)
  let ?row = "map (\<lambda>v. map round32 (vertices ! nat v)) face"
  let ?vecs = "vecs[n := ?row]"
  from Cons.prems have n: "n < length vecs" and tri: "length (vecs ! n) = 3"
    and face: "length face = 3" "\<forall>v \<in> set face. 0 \<le> v \<and> v < int (length vertices)"
    by simp_all
  have step: "fill_face vertices face n [0..<3] vecs = Inr ?vecs"
    using n tri face by (rule fill_face_rows)
  have rows: "\<forall>tri \<in> set ?vecs. length tri = 3"
  proof
    fix tri assume "tri \<in> set ?vecs"
    then have "tri \<in> insert ?row (set vecs)"
      using set_update_subset_insert by fast
    with Cons.prems(3) face show "length tri = 3" by auto
  qed
  from Cons.prems have "fill_mesh vertices (enumerate (Suc n) faces) ?vecs =
      Inr (take (Suc n) ?vecs @ map (map (\<lambda>v. map round32 (vertices ! nat v))) faces
           @ drop (Suc n + length faces) ?vecs)"
    by (intro Cons.IH rows) simp_all
  moreover from n have "take (Suc n) ?vecs = take n vecs @ [?row]"
    by (simp add: take_Suc_conv_app_nth)
  moreover have "drop (Suc n + length faces) ?vecs = drop (n + length (face # faces)) vecs"
    by simp
  ultimately show ?case
    using step by simp
qed

lemma faces_shape: "length plate_faces = 12 \<and> (\<forall>face \<in> set plate_faces. length face = 3)"
  by (simp add: plate_faces_def)

lemma faces_in_range: "\<forall>face \<in> set plate_faces. \<forall>v \<in> set face. 0 \<le> v \<and> v < 8"
  by (simp add: plate_faces_def)

lemma length_plate_vertices: "length (plate_vertices w l t) = 8"
  by (simp add: plate_vertices_def)

text \<open>
  create_plate never raises: every triangle is its face with the indices looked up and the
  coordinates rounded to binary32.
\<close>

lemma create_plate_lookup:
  "create_plate w l t =
     Inr (\<lparr>vectors = map (map (\<lambda>v. map round32 (plate_vertices w l t ! nat v))) plate_faces\<rparr>,
          plate_vertices w l t)"
proof -
  let ?zeros = "replicate (length plate_faces) (replicate 3 (replicate 3 (Fin 0)))"
  have "\<forall>face \<in> set plate_faces. length face = 3 \<and>
       (\<forall>v \<in> set face. 0 \<le> v \<and> v < int (length (plate_vertices w l t)))"
    using faces_shape faces_in_range by (simp add: length_plate_vertices)
  moreover have "0 + length plate_faces \<le> length ?zeros"
    by simp
  moreover have "\<forall>tri \<in> set ?zeros. length tri = 3"
    by simp
  ultimately have "fill_mesh (plate_vertices w l t) (enumerate 0 plate_faces) ?zeros =
      Inr (take 0 ?zeros
           @ map (map (\<lambda>v. map round32 (plate_vertices w l t ! nat v))) plate_faces
           @ drop (0 + length plate_faces) ?zeros)"
    by (rule fill_mesh_enumerate)
  then show ?thesis
    by (simp add: create_plate_def Let_def)
qed

text \<open>Dimensions that are binary32 numbers are stored unchanged.\<close>

lemma plate_vertices_exact:
  assumes "round32 w = Fin w" and "round32 l = Fin l" and "round32 t = Fin t"
  shows "\<forall>row \<in> set (plate_vertices w l t). map round32 row = map Fin row"
  using assms by (simp add: plate_vertices_def round32_zero)

subsection \<open>Weight\<close>

text \<open>
  Five rounded operations lose less than a relative 2^(-50), two lose less than 2^(-51).
\<close>

lemma rel_error_2: "(1 + 1 / 2 ^ 53) ^ 2 - 1 \<le> (1 / 2 ^ 51 :: real)"
  by (simp add: power_divide)

lemma rel_error_5: "(1 + 1 / 2 ^ 53) ^ 5 - 1 \<le> (1 / 2 ^ 50 :: real)"
  by (simp add: power_divide)

lemma rounded_start: "\<bar>w - w\<bar> \<le> ((1 + 1 / 2 ^ 53) ^ 0 - 1) * \<bar>w :: real\<bar>"
  by simp

lemma calculate_volume_error:
  assumes v: "calculate_volume (Fin w) (Fin l) (Fin t) = Fin v"
    and nounder: "2 / 2 ^ 1022 \<le> \<bar>w * l\<bar>" "2 / 2 ^ 1022 \<le> \<bar>w * l * t\<bar>"
  shows "\<bar>v - w * l * t\<bar> \<le> ((1 + 1 / 2 ^ 53) ^ 2 - 1) * \<bar>w * l * t\<bar>"
proof -
  from v obtain p where p: "round64 (w * l) = Fin p" and r: "round64 (p * t) = Fin v"
    using fmul_Fin_cases [of "fmul (Fin w) (Fin l)" "Fin t" v]
    by (auto simp add: calculate_volume_def)
  have "\<bar>p - w * l\<bar> \<le> ((1 + 1 / 2 ^ 53) ^ Suc 0 - 1) * \<bar>w * l\<bar>"
    using rounded_start _ nounder(1) p by (rule rounded_step) simp
  then have "\<bar>v - w * l * t\<bar> \<le> ((1 + 1 / 2 ^ 53) ^ Suc (Suc 0) - 1) * \<bar>w * l * t\<bar>"
    using _ nounder(2) r by (rule rounded_step) simp
  then show ?thesis
    by (simp add: numeral_2_eq_2)
qed


lemma calculate_weight_returns: "\<exists>g. calculate_weight u d = Inr g"
  by (simp add: calculate_weight_def)

lemma calculate_weight_error:
  assumes g: "calculate_weight (Fin v) (Fin d) = Inr (Fin g)"
    and nounder: "2 / 2 ^ 1022 \<le> \<bar>v / 1000\<bar>" "2 / 2 ^ 1022 \<le> \<bar>v / 1000 * d\<bar>"
  shows "\<bar>g - v / 1000 * d\<bar> \<le> ((1 + 1 / 2 ^ 53) ^ 2 - 1) * \<bar>v / 1000 * d\<bar>"
proof -
  from g obtain c where c: "round64 (v * (1 / 1000)) = Fin c" and r: "round64 (c * d) = Fin g"
    using fmul_Fin_cases [of "round64 (v / 1000)" "Fin d" g]
    by (auto simp add: calculate_weight_def)
  from nounder(1) have n1: "2 / 2 ^ 1022 \<le> \<bar>v * (1 / 1000)\<bar>"
    by simp
  from nounder(2) have n2: "2 / 2 ^ 1022 \<le> \<bar>v * (1 / 1000) * d\<bar>"
    by simp
  have "\<bar>c - v * (1 / 1000)\<bar> \<le> ((1 + 1 / 2 ^ 53) ^ Suc 0 - 1) * \<bar>v * (1 / 1000)\<bar>"
    using rounded_start _ n1 c by (rule rounded_step) simp
  then have "\<bar>g - v * (1 / 1000) * d\<bar>
      \<le> ((1 + 1 / 2 ^ 53) ^ Suc (Suc 0) - 1) * \<bar>v * (1 / 1000) * d\<bar>"
    using _ n2 r by (rule rounded_step) simp
  then show ?thesis
    by (simp add: numeral_2_eq_2)
qed

text \<open>
  C1 (as amended). For finite floats w, l, t and a density d of the table, the mass in grams
  is calculate_weight (calculate_volume w l t) d, computed in float arithmetic as
  ((w * l) * t / 1000) * d, and the value in kilograms of the handler is that result
  divided by 1000, again rounded. Whenever that value is finite and no intermediate result
  underflows (each exact intermediate value is at least 2^(-1021) in magnitude), the grams
  differ from w * l * t / 1000 * d by a relative error of at most (1 + 2^(-53))^4 - 1 and the
  kilograms differ from w * l * t * d / 1000000 by a relative error of at most
  (1 + 2^(-53))^5 - 1; they are not equal to these values in general.
\<close>

theorem weight_pipeline_kg:
  assumes d: "steel_types steel_type = Some (Fin d)"
    and kg: "generate_weight (Fin w) (Fin l) (Fin t) steel_type = Inr (Fin kg)"
    and nounder: "2 / 2 ^ 1022 \<le> \<bar>w * l\<bar>" "2 / 2 ^ 1022 \<le> \<bar>w * l * t\<bar>"
      "2 / 2 ^ 1022 \<le> \<bar>w * l * t / 1000\<bar>" "2 / 2 ^ 1022 \<le> \<bar>w * l * t / 1000 * d\<bar>"
      "2 / 2 ^ 1022 \<le> \<bar>w * l * t * d / 1000000\<bar>"
  shows "\<exists>g. calculate_weight (calculate_volume (Fin w) (Fin l) (Fin t)) (Fin d) = Inr (Fin g) \<and>
           fdiv (Fin g) (Fin 1000) = Inr (Fin kg) \<and>
           \<bar>g - w * l * t / 1000 * d\<bar> \<le> ((1 + 1 / 2 ^ 53) ^ 4 - 1) * \<bar>w * l * t / 1000 * d\<bar> \<and>
           \<bar>kg - w * l * t * d / 1000000\<bar>
             \<le> ((1 + 1 / 2 ^ 53) ^ 5 - 1) * \<bar>w * l * t * d / 1000000\<bar>"
proof -
  from kg d obtain g' where g': "calculate_weight (calculate_volume (Fin w) (Fin l) (Fin t)) (Fin d) = Inr g'"
    and k: "fdiv g' (Fin 1000) = Inr (Fin kg)"
    by (auto simp add: generate_weight_def Let_def split: sum.splits)
  from k obtain g where gg: "g' = Fin g"
    using fdiv_Fin_cases by blast
  with k have r5: "round64 (g * (1 / 1000)) = Fin kg"
    by simp
  from g' gg obtain c' where c': "fdiv (calculate_volume (Fin w) (Fin l) (Fin t)) (Fin 1000) = Inr c'"
    and r4': "fmul c' (Fin d) = Fin g"
    by (auto simp add: calculate_weight_def split: sum.splits)
  from r4' obtain c where cc: "c' = Fin c"
    using fmul_Fin_cases by blast
  with r4' have r4: "round64 (c * d) = Fin g"
    by simp
  from c' cc obtain v where vv: "calculate_volume (Fin w) (Fin l) (Fin t) = Fin v"
    using fdiv_Fin_cases by blast
  with c' cc have r3: "round64 (v * (1 / 1000)) = Fin c"
    by simp
  from vv obtain p where r1: "round64 (w * l) = Fin p" and r2: "round64 (p * t) = Fin v"
    using fmul_Fin_cases [of "fmul (Fin w) (Fin l)" "Fin t" v]
    by (auto simp add: calculate_volume_def)
  from nounder(3) have n3: "2 / 2 ^ 1022 \<le> \<bar>w * l * t * (1 / 1000)\<bar>"
    by simp
  from nounder(4) have n4: "2 / 2 ^ 1022 \<le> \<bar>w * l * t * (1 / 1000) * d\<bar>"
    by simp
  from nounder(5) have n5: "2 / 2 ^ 1022 \<le> \<bar>w * l * t * (1 / 1000) * d * (1 / 1000)\<bar>"
    by simp
  have "\<bar>p - w * l\<bar> \<le> ((1 + 1 / 2 ^ 53) ^ Suc 0 - 1) * \<bar>w * l\<bar>"
    using rounded_start _ nounder(1) r1 by (rule rounded_step) simp
  then have "\<bar>v - w * l * t\<bar> \<le> ((1 + 1 / 2 ^ 53) ^ Suc (Suc 0) - 1) * \<bar>w * l * t\<bar>"
    using _ nounder(2) r2 by (rule rounded_step) simp
  then have "\<bar>c - w * l * t * (1 / 1000)\<bar>
      \<le> ((1 + 1 / 2 ^ 53) ^ Suc (Suc (Suc 0)) - 1) * \<bar>w * l * t * (1 / 1000)\<bar>"
    using _ n3 r3 by (rule rounded_step) (simp add: power_divide)
  then have e4: "\<bar>g - w * l * t * (1 / 1000) * d\<bar>
      \<le> ((1 + 1 / 2 ^ 53) ^ Suc (Suc (Suc (Suc 0))) - 1) * \<bar>w * l * t * (1 / 1000) * d\<bar>"
    using _ n4 r4 by (rule rounded_step) (simp add: power_divide)
  then have e5: "\<bar>kg - w * l * t * (1 / 1000) * d * (1 / 1000)\<bar>
      \<le> ((1 + 1 / 2 ^ 53) ^ Suc (Suc (Suc (Suc (Suc 0)))) - 1)
          * \<bar>w * l * t * (1 / 1000) * d * (1 / 1000)\<bar>"
    using _ n5 r5 by (rule rounded_step) (simp add: power_divide)
  have n4eq: "Suc (Suc (Suc (Suc 0))) = 4" and n5eq: "Suc (Suc (Suc (Suc (Suc 0)))) = 5"
    by simp_all
  from e4 have "\<bar>g - w * l * t / 1000 * d\<bar> \<le> ((1 + 1 / 2 ^ 53) ^ 4 - 1) * \<bar>w * l * t / 1000 * d\<bar>"
    unfolding n4eq by simp
  moreover from e5 have "\<bar>kg - w * l * t * d / 1000000\<bar>
             \<le> ((1 + 1 / 2 ^ 53) ^ 5 - 1) * \<bar>w * l * t * d / 1000000\<bar>"
    unfolding n5eq by simp
  ultimately show ?thesis
    using g' gg k by simp
qed

text \<open>The scenario of a 50 x 20 x 5 plate of AISI 304: the float 0.04.\<close>

theorem weight_pipeline_kg_witness:
  "steel_types ''AISI 304'' = Some (Fin 8) \<and>
   generate_weight (Fin 50) (Fin 20) (Fin 5) ''AISI 304'' = Inr (Fin (5764607523034235 / 144115188075855872)) \<and>
   2 / 2 ^ 1022 \<le> \<bar>50 * 20 :: real\<bar> \<and>
   2 / 2 ^ 1022 \<le> \<bar>50 * 20 * 5 :: real\<bar> \<and>
   2 / 2 ^ 1022 \<le> \<bar>50 * 20 * 5 / 1000 :: real\<bar> \<and>
   2 / 2 ^ 1022 \<le> \<bar>50 * 20 * 5 / 1000 * 8 :: real\<bar> \<and>
   2 / 2 ^ 1022 \<le> \<bar>50 * 20 * 5 * 8 / 1000000 :: real\<bar> \<and>
   (\<exists>g. calculate_weight (calculate_volume (Fin 50) (Fin 20) (Fin 5)) (Fin 8) = Inr (Fin g) \<and>
        fdiv (Fin g) (Fin 1000) = Inr (Fin (5764607523034235 / 144115188075855872)) \<and>
        \<bar>g - 50 * 20 * 5 / 1000 * 8\<bar>
          \<le> ((1 + 1 / 2 ^ 53) ^ 4 - 1) * \<bar>50 * 20 * 5 / 1000 * 8\<bar> \<and>
        \<bar>5764607523034235 / 144115188075855872 - 50 * 20 * 5 * 8 / 1000000 :: real\<bar>
          \<le> ((1 + 1 / 2 ^ 53) ^ 5 - 1) * \<bar>50 * 20 * 5 * 8 / 1000000\<bar>)"
proof -
  have d: "steel_types ''AISI 304'' = Some (Fin 8)"
    by (simp add: steel_types_def round64_8)
  have kg: "generate_weight (Fin 50) (Fin 20) (Fin 5) ''AISI 304'' = Inr (Fin (5764607523034235 / 144115188075855872))"
    by (simp add: generate_weight_def calculate_weight_def calculate_volume_def steel_types_def
        round64_8 round64_1000 round64_5000 round64_5 round64_40 round64_40_div_1000)
  have n1: "2 / 2 ^ 1022 \<le> \<bar>50 * 20 :: real\<bar>"
    and n2: "2 / 2 ^ 1022 \<le> \<bar>50 * 20 * 5 :: real\<bar>"
    and n3: "2 / 2 ^ 1022 \<le> \<bar>50 * 20 * 5 / 1000 :: real\<bar>"
    and n4: "2 / 2 ^ 1022 \<le> \<bar>50 * 20 * 5 / 1000 * 8 :: real\<bar>"
    and n5: "2 / 2 ^ 1022 \<le> \<bar>50 * 20 * 5 * 8 / 1000000 :: real\<bar>"
    by simp_all
  note res = weight_pipeline_kg [OF d kg n1 n2 n3 n4 n5]
  show ?thesis
    by (intro conjI d kg n1 n2 n3 n4 n5 res)
qed

text \<open>
  A 1 x 1 x 1 plate of AISI 316: the handler computes the float 7.980000000000002e-06,
  which is neither the real number d / 1000000 for the density d of the table nor the
  float 7.98e-06 nearest to it.
\<close>

theorem weight_pipeline_kg_counterexample:
  "steel_types ''AISI 316'' = Some (Fin (2246170314151035 / 281474976710656)) \<and>
   generate_weight (Fin 1) (Fin 1) (Fin 1) ''AISI 316'' = Inr (Fin (588820070832809 / 73786976294838206464)) \<and>
   (588820070832809 / 73786976294838206464 :: real) \<noteq> 1 * 1 * 1 * (2246170314151035 / 281474976710656) / 1000000 \<and>
   round64 (1 * 1 * 1 * (2246170314151035 / 281474976710656) / 1000000) = Fin (4710560566662471 / 590295810358705651712) \<and>
   (588820070832809 / 73786976294838206464 :: real) \<noteq> 4710560566662471 / 590295810358705651712"
  by (simp add: generate_weight_def calculate_weight_def calculate_volume_def steel_types_def
      round64_7_98 round64_1 round64_1_div_1000 round64_grams_316 round64_kg_316
      round64_direct_316)

text \<open>
  C2 (as amended). calculate_volume returns the float product (w * l) * t and
  calculate_weight the float (v / 1000) * d, each operation rounded to the nearest float:
  when the result is finite and nothing underflows it is within a relative error of
  (1 + 2^(-53))^2 - 1 of the exact value, and it is the exact value when the exact
  intermediate results are floats. calculate_weight never raises.
\<close>

theorem calculate_volume_weight_rounded:
  "(calculate_volume (Fin w) (Fin l) (Fin t) = Fin v \<and>
      2 / 2 ^ 1022 \<le> \<bar>w * l\<bar> \<and> 2 / 2 ^ 1022 \<le> \<bar>w * l * t\<bar> \<longrightarrow>
      \<bar>v - w * l * t\<bar> \<le> ((1 + 1 / 2 ^ 53) ^ 2 - 1) * \<bar>w * l * t\<bar>) \<and>
   (round64 (w * l) = Fin (w * l) \<and> round64 (w * l * t) = Fin (w * l * t) \<longrightarrow>
      calculate_volume (Fin w) (Fin l) (Fin t) = Fin (w * l * t)) \<and>
   (calculate_weight (Fin u) (Fin d) = Inr (Fin g) \<and>
      2 / 2 ^ 1022 \<le> \<bar>u / 1000\<bar> \<and> 2 / 2 ^ 1022 \<le> \<bar>u / 1000 * d\<bar> \<longrightarrow>
      \<bar>g - u / 1000 * d\<bar> \<le> ((1 + 1 / 2 ^ 53) ^ 2 - 1) * \<bar>u / 1000 * d\<bar>) \<and>
   (round64 (u / 1000) = Fin (u / 1000) \<and> round64 (u / 1000 * d) = Fin (u / 1000 * d) \<longrightarrow>
      calculate_weight (Fin u) (Fin d) = Inr (Fin (u / 1000 * d))) \<and>
   (\<exists>r. calculate_weight a b = Inr r)"
proof (intro conjI impI)
  assume "calculate_volume (Fin w) (Fin l) (Fin t) = Fin v \<and>
      2 / 2 ^ 1022 \<le> \<bar>w * l\<bar> \<and> 2 / 2 ^ 1022 \<le> \<bar>w * l * t\<bar>"
  then show "\<bar>v - w * l * t\<bar> \<le> ((1 + 1 / 2 ^ 53) ^ 2 - 1) * \<bar>w * l * t\<bar>"
    using calculate_volume_error by blast
next
  assume "round64 (w * l) = Fin (w * l) \<and> round64 (w * l * t) = Fin (w * l * t)"
  then show "calculate_volume (Fin w) (Fin l) (Fin t) = Fin (w * l * t)"
    by (simp add: calculate_volume_def)
next
  assume "calculate_weight (Fin u) (Fin d) = Inr (Fin g) \<and>
      2 / 2 ^ 1022 \<le> \<bar>u / 1000\<bar> \<and> 2 / 2 ^ 1022 \<le> \<bar>u / 1000 * d\<bar>"
  then show "\<bar>g - u / 1000 * d\<bar> \<le> ((1 + 1 / 2 ^ 53) ^ 2 - 1) * \<bar>u / 1000 * d\<bar>"
    using calculate_weight_error by blast
next
  assume "round64 (u / 1000) = Fin (u / 1000) \<and> round64 (u / 1000 * d) = Fin (u / 1000 * d)"
  then show "calculate_weight (Fin u) (Fin d) = Inr (Fin (u / 1000 * d))"
    by (simp add: calculate_weight_def)
next
  show "\<exists>r. calculate_weight a b = Inr r"
    by (rule calculate_weight_returns)
qed

text \<open>A 100 x 100 x 10 plate: the volume 100000 exactly, and 800 g at density 8.\<close>

theorem calculate_volume_weight_rounded_witness:
  "calculate_volume (Fin 100) (Fin 100) (Fin 10) = Fin 100000 \<and>
   2 / 2 ^ 1022 \<le> \<bar>100 * 100 :: real\<bar> \<and> 2 / 2 ^ 1022 \<le> \<bar>100 * 100 * 10 :: real\<bar> \<and>
   round64 (100 * 100) = Fin (100 * 100) \<and> round64 (100 * 100 * 10) = Fin (100 * 100 * 10) \<and>
   calculate_weight (Fin 100000) (Fin 8) = Inr (Fin 800) \<and>
   2 / 2 ^ 1022 \<le> \<bar>100000 / 1000 :: real\<bar> \<and> 2 / 2 ^ 1022 \<le> \<bar>100000 / 1000 * 8 :: real\<bar> \<and>
   round64 (100000 / 1000) = Fin (100000 / 1000) \<and>
   round64 (100000 / 1000 * 8) = Fin (100000 / 1000 * 8) \<and>
   \<bar>100000 - 100 * 100 * 10 :: real\<bar> \<le> ((1 + 1 / 2 ^ 53) ^ 2 - 1) * \<bar>100 * 100 * 10\<bar> \<and>
   \<bar>800 - 100000 / 1000 * 8 :: real\<bar> \<le> ((1 + 1 / 2 ^ 53) ^ 2 - 1) * \<bar>100000 / 1000 * 8\<bar>"
proof -
  have r: "round64 (100 * 100) = Fin (100 * 100)"
    "round64 (100 * 100 * 10) = Fin (100 * 100 * 10)"
    "round64 (100000 / 1000) = Fin (100000 / 1000)"
    "round64 (100000 / 1000 * 8) = Fin (100000 / 1000 * 8)"
    by (simp_all add: round64_10000 round64_100000 round64_100 round64_800)
  have n: "2 / 2 ^ 1022 \<le> \<bar>100 * 100 :: real\<bar>" "2 / 2 ^ 1022 \<le> \<bar>100 * 100 * 10 :: real\<bar>"
    "2 / 2 ^ 1022 \<le> \<bar>100000 / 1000 :: real\<bar>" "2 / 2 ^ 1022 \<le> \<bar>100000 / 1000 * 8 :: real\<bar>"
    by simp_all
  note inst = calculate_volume_weight_rounded [of 100 100 10 100000 100000 8 800]
  from inst r have v: "calculate_volume (Fin 100) (Fin 100) (Fin 10) = Fin 100000"
    and g: "calculate_weight (Fin 100000) (Fin 8) = Inr (Fin 800)"
    by simp_all
  have e1: "\<bar>100000 - 100 * 100 * 10 :: real\<bar> \<le> ((1 + 1 / 2 ^ 53) ^ 2 - 1) * \<bar>100 * 100 * 10\<bar>"
    by (rule inst [THEN conjunct1, rule_format]) (intro conjI v n)
  have e2: "\<bar>800 - 100000 / 1000 * 8 :: real\<bar> \<le> ((1 + 1 / 2 ^ 53) ^ 2 - 1) * \<bar>100000 / 1000 * 8\<bar>"
    by (rule inst [THEN conjunct2, THEN conjunct2, THEN conjunct1, rule_format])
      (intro conjI g n)
  show ?thesis
    by (intro conjI v n r g e1 e2)
qed

text \<open>
  The floats 0.1, 0.2 and 0.3: the volume is the float 0.006000000000000001, not the
  product of the three numbers; and 3 cubic millimetres at density 0.1 weigh the float
  0.00030000000000000003, not 3 / 1000 times the density.
\<close>

theorem calculate_volume_weight_rounded_counterexample:
  "round64 (1 / 10) = Fin (3602879701896397 / 36028797018963968) \<and>
   round64 (2 / 10) = Fin (3602879701896397 / 18014398509481984) \<and>
   round64 (3 / 10) = Fin (5404319552844595 / 18014398509481984) \<and>
   calculate_volume (Fin (3602879701896397 / 36028797018963968)) (Fin (3602879701896397 / 18014398509481984)) (Fin (5404319552844595 / 18014398509481984)) = Fin (6917529027641083 / 1152921504606846976) \<and>
   (6917529027641083 / 1152921504606846976 :: real) \<noteq> (3602879701896397 / 36028797018963968) * (3602879701896397 / 18014398509481984) * (5404319552844595 / 18014398509481984) \<and>
   calculate_weight (Fin 3) (Fin (3602879701896397 / 36028797018963968)) = Inr (Fin (2767011611056433 / 9223372036854775808)) \<and>
   (2767011611056433 / 9223372036854775808 :: real) \<noteq> 3 / 1000 * (3602879701896397 / 36028797018963968)"
  by (simp add: calculate_volume_def calculate_weight_def round64_0_1 round64_0_2 round64_0_3
      round64_0_1_times_0_2 round64_0_1_times_0_2_times_0_3 round64_3_div_1000
      round64_3_div_1000_times_0_1)

text \<open>
  C8 (as amended). With thickness 0 the volume is 0 for every width and length whose
  product does not overflow (a product of magnitude at most 2^1023 does not), the weight of
  a zero volume is 0 for every finite density, and so are the weight in grams of the plate
  and the value in kilograms of the handler.
\<close>

theorem zero_thickness_zero_weight:
  assumes "\<bar>w * l\<bar> \<le> 2 ^ 1023"
  shows "calculate_volume (Fin w) (Fin l) (Fin 0) = Fin 0 \<and>
         calculate_weight (Fin 0) (Fin d) = Inr (Fin 0) \<and>
         calculate_weight (calculate_volume (Fin w) (Fin l) (Fin 0)) (Fin d) = Inr (Fin 0) \<and>
         (steel_types steel_type = Some (Fin d) \<longrightarrow>
            generate_weight (Fin w) (Fin l) (Fin 0) steel_type = Inr (Fin 0))"
proof -
  from assms obtain p where "round64 (w * l) = Fin p"
    using round64_finite by blast
  then have v: "calculate_volume (Fin w) (Fin l) (Fin 0) = Fin 0"
    by (simp add: calculate_volume_def round64_zero)
  have g: "calculate_weight (Fin 0) (Fin d) = Inr (Fin 0)"
    by (simp add: calculate_weight_def round64_zero)
  from v g show ?thesis
    by (simp add: generate_weight_def round64_zero)
qed

text \<open>A 100 x 100 plate of thickness 0 and AISI 304.\<close>

theorem zero_thickness_zero_weight_witness:
  "\<bar>100 * 100 :: real\<bar> \<le> 2 ^ 1023 \<and> steel_types ''AISI 304'' = Some (Fin 8) \<and>
   calculate_volume (Fin 100) (Fin 100) (Fin 0) = Fin 0 \<and>
   generate_weight (Fin 100) (Fin 100) (Fin 0) ''AISI 304'' = Inr (Fin 0)"
proof -
  have b: "\<bar>100 * 100 :: real\<bar> \<le> 2 ^ 1023"
    by simp
  have d: "steel_types ''AISI 304'' = Some (Fin 8)"
    by (simp add: steel_types_def round64_8)
  note res = zero_thickness_zero_weight [OF b, of 8 "''AISI 304''"]
  from res have v: "calculate_volume (Fin 100) (Fin 100) (Fin 0) = Fin 0"
    by (rule conjunct1)
  have k: "generate_weight (Fin 100) (Fin 100) (Fin 0) ''AISI 304'' = Inr (Fin 0)"
    by (rule res [THEN conjunct2, THEN conjunct2, THEN conjunct2, rule_format]) (rule d)
  show ?thesis
    by (intro conjI b d v k)
qed

text \<open>
  Width and length 1e200, which the form accepts, and thickness 0: the product of width
  and length overflows to infinity, and infinity times 0 is NaN, for the volume, the grams
  and the kilograms.
\<close>

theorem zero_thickness_zero_weight_counterexample:
  "round64 (10 ^ 200) = Fin 99999999999999996973312221251036165947450327545502362648241750950346848435554075534196338404706251868027512415973882408182135734368278484639385041047239877871023591066789981811181813306167128854888448 \<and>
   calculate_volume (Fin 99999999999999996973312221251036165947450327545502362648241750950346848435554075534196338404706251868027512415973882408182135734368278484639385041047239877871023591066789981811181813306167128854888448) (Fin 99999999999999996973312221251036165947450327545502362648241750950346848435554075534196338404706251868027512415973882408182135734368278484639385041047239877871023591066789981811181813306167128854888448) (Fin 0) = NaN \<and>
   calculate_weight (calculate_volume (Fin 99999999999999996973312221251036165947450327545502362648241750950346848435554075534196338404706251868027512415973882408182135734368278484639385041047239877871023591066789981811181813306167128854888448) (Fin 99999999999999996973312221251036165947450327545502362648241750950346848435554075534196338404706251868027512415973882408182135734368278484639385041047239877871023591066789981811181813306167128854888448) (Fin 0)) (Fin 8) = Inr NaN \<and>
   generate_weight (Fin 99999999999999996973312221251036165947450327545502362648241750950346848435554075534196338404706251868027512415973882408182135734368278484639385041047239877871023591066789981811181813306167128854888448) (Fin 99999999999999996973312221251036165947450327545502362648241750950346848435554075534196338404706251868027512415973882408182135734368278484639385041047239877871023591066789981811181813306167128854888448) (Fin 0) ''AISI 304'' = Inr NaN"
proof -
  have ov: "fmul (Fin 99999999999999996973312221251036165947450327545502362648241750950346848435554075534196338404706251868027512415973882408182135734368278484639385041047239877871023591066789981811181813306167128854888448) (Fin 99999999999999996973312221251036165947450327545502362648241750950346848435554075534196338404706251868027512415973882408182135734368278484639385041047239877871023591066789981811181813306167128854888448) = PInf"
    by (simp add: round64_overflow)
  then have v: "calculate_volume (Fin 99999999999999996973312221251036165947450327545502362648241750950346848435554075534196338404706251868027512415973882408182135734368278484639385041047239877871023591066789981811181813306167128854888448) (Fin 99999999999999996973312221251036165947450327545502362648241750950346848435554075534196338404706251868027512415973882408182135734368278484639385041047239877871023591066789981811181813306167128854888448) (Fin 0) = NaN"
    by (simp only: calculate_volume_def) simp
  have "steel_types ''AISI 304'' = Some (Fin 8)"
    by (simp add: steel_types_def round64_8)
  with v show ?thesis
    by (simp add: generate_weight_def calculate_weight_def round64_1e200)
qed

subsection \<open>Geometry\<close>

text \<open>
  C3. For every width, length and thickness, create_plate returns a vertex array of exactly
  8 points, in order (0,0,0), (w,0,0), (w,l,0), (0,l,0), (0,0,t), (w,0,t), (w,l,t), (0,l,t):
  vertices 0 to 3 have z = 0 and vertices 4 to 7 have z = t.
\<close>

theorem create_plate_vertices:
  "\<exists>m vs. create_plate w l t = Inr (m, vs) \<and>
     vs = [[0, 0, 0], [w, 0, 0], [w, l, 0], [0, l, 0],
           [0, 0, t], [w, 0, t], [w, l, t], [0, l, t]] \<and>
     length vs = 8 \<and>
     map (\<lambda>v. v ! 2) (take 4 vs) = [0, 0, 0, 0] \<and>
     map (\<lambda>v. v ! 2) (drop 4 vs) = [t, t, t, t]"
  by (simp add: create_plate_lookup plate_vertices_def)

text \<open>
  C4. For positive width, length and thickness, each of the 12 faces is wound outward: the
  cross product of its two edge vectors, in the listed vertex order, points down for the
  two bottom triangles, up for the two top triangles, and away from the box on each side
  (towards negative y, positive x, positive y and negative x, in the order of the array).
  When the three dimensions are binary32 numbers, the triangles of the mesh that
  create_plate returns are these faces, wound outward.
\<close>

theorem create_plate_winding:
  assumes "0 < w" and "0 < l" and "0 < t"
  shows "map (face_normal (plate_vertices w l t)) plate_faces =
           [[0, 0, - (w * l)], [0, 0, - (w * l)],
            [0, 0, w * l], [0, 0, w * l],
            [0, - (w * t), 0], [0, - (w * t), 0],
            [l * t, 0, 0], [l * t, 0, 0],
            [0, w * t, 0], [0, w * t, 0],
            [- (l * t), 0, 0], [- (l * t), 0, 0]] \<and>
         0 < w * l \<and> 0 < w * t \<and> 0 < l * t \<and>
         (\<forall>face \<in> set plate_faces.
            points_outward w l t (map (\<lambda>v. plate_vertices w l t ! nat v) face)) \<and>
         (round32 w = Fin w \<and> round32 l = Fin l \<and> round32 t = Fin t \<longrightarrow>
            (\<exists>m vs tris. create_plate w l t = Inr (m, vs) \<and>
               vectors m = map (map (map Fin)) tris \<and>
               (\<forall>tri \<in> set tris. points_outward w l t tri)))"
proof -
  have normals: "map (face_normal (plate_vertices w l t)) plate_faces =
           [[0, 0, - (w * l)], [0, 0, - (w * l)],
            [0, 0, w * l], [0, 0, w * l],
            [0, - (w * t), 0], [0, - (w * t), 0],
            [l * t, 0, 0], [l * t, 0, 0],
            [0, w * t, 0], [0, w * t, 0],
            [- (l * t), 0, 0], [- (l * t), 0, 0]]"
    by (simp add: plate_faces_def plate_vertices_def face_normal_def triangle_normal_def
        vsub_def)
  from assms have signs: "0 < w * l" "0 < w * t" "0 < l * t"
    by simp_all
  from assms
  have out: "\<forall>face \<in> set plate_faces.
            points_outward w l t (map (\<lambda>v. plate_vertices w l t ! nat v) face)"
    by (simp add: plate_faces_def plate_vertices_def triangle_normal_def
        points_outward_def vsub_def dot_def)
  let ?tris = "map (map (\<lambda>v. plate_vertices w l t ! nat v)) plate_faces"
  from out have tris: "\<forall>tri \<in> set ?tris. points_outward w l t tri"
    by simp
  have mesh: "\<exists>m vs tris. create_plate w l t = Inr (m, vs) \<and>
               vectors m = map (map (map Fin)) tris \<and>
               (\<forall>tri \<in> set tris. points_outward w l t tri)"
    if exact: "round32 w = Fin w \<and> round32 l = Fin l \<and> round32 t = Fin t"
  proof -
    from exact
    have "map (map (\<lambda>v. map round32 (plate_vertices w l t ! nat v))) plate_faces
        = map (map (map Fin)) ?tris"
      by (simp add: plate_faces_def plate_vertices_def round32_zero)
    then have "create_plate w l t
        = Inr (\<lparr>vectors = map (map (map Fin)) ?tris\<rparr>, plate_vertices w l t)"
      by (simp add: create_plate_lookup)
    moreover have "vectors \<lparr>vectors = map (map (map Fin)) ?tris\<rparr> = map (map (map Fin)) ?tris"
      by simp
    ultimately show ?thesis
      using tris by blast
  qed
  from normals signs out mesh show ?thesis
    by (intro conjI impI) simp_all
qed

lemma pos100: "(0::real) < 100"
  by simp

lemma pos10: "(0::real) < 10"
  by simp

text \<open>The bottom triangle (0, 3, 1) of a 100 x 100 x 10 plate: its normal points down.\<close>

theorem create_plate_winding_witness:
  "(0::real) < 100 \<and> (0::real) < 10 \<and> [0, 3, 1] \<in> set plate_faces \<and>
   face_normal (plate_vertices 100 100 10) [0, 3, 1] = [0, 0, - 10000] \<and>
   points_outward 100 100 10 [[0, 0, 0], [0, 100, 0], [100, 0, 0]] \<and>
   round32 100 = Fin 100 \<and> round32 10 = Fin 10 \<and>
   (\<exists>m vs tris. create_plate 100 100 10 = Inr (m, vs) \<and>
      vectors m = map (map (map Fin)) tris \<and>
      (\<forall>tri \<in> set tris. points_outward 100 100 10 tri))"
proof -
  note inst = create_plate_winding [OF pos100 pos100 pos10]
  have exact: "round32 100 = Fin 100 \<and> round32 100 = Fin 100 \<and> round32 10 = Fin 10"
    by (simp add: round32_100 round32_10)
  have mesh: "\<exists>m vs tris. create_plate 100 100 10 = Inr (m, vs) \<and>
      vectors m = map (map (map Fin)) tris \<and>
      (\<forall>tri \<in> set tris. points_outward 100 100 10 tri)"
    by (rule inst [THEN conjunct2, THEN conjunct2, THEN conjunct2, THEN conjunct2,
          THEN conjunct2, rule_format]) (rule exact)
  have pos: "(0::real) < 100" "(0::real) < 10"
    by simp_all
  have mem: "[0, 3, 1] \<in> set plate_faces"
    by (simp add: plate_faces_def)
  have corners: "map (\<lambda>v. plate_vertices 100 100 10 ! nat v) [0, 3, 1] =
      [[0, 0, 0], [0, 100, 0], [100, 0, 0]]"
    by (simp add: plate_vertices_def)
  from inst
  have n: "map (face_normal (plate_vertices 100 100 10)) plate_faces ! 0 = [0, 0, - (100 * 100)]"
    and out: "\<forall>face \<in> set plate_faces.
            points_outward 100 100 10 (map (\<lambda>v. plate_vertices 100 100 10 ! nat v) face)"
    by simp_all
  from n have "face_normal (plate_vertices 100 100 10) [0, 3, 1] = [0, 0, - 10000]"
    by (simp add: plate_faces_def)
  moreover from out mem corners
  have "points_outward 100 100 10 [[0, 0, 0], [0, 100, 0], [100, 0, 0]]"
    by fastforce
  ultimately show ?thesis
    using pos mem mesh exact by simp
qed

text \<open>
  C5 (as amended). For every input the mesh of create_plate has exactly 12 triangles of 3
  points, and for every triangle index i in 0..11 and vertex slot j in 0..2 the j-th point
  of triangle i is vertices[faces[i][j]], a lookup that does not raise, with each
  coordinate rounded to binary32, the element type of the mesh. It is vertices[faces[i][j]]
  itself when width, length and thickness are binary32 numbers.
\<close>

theorem create_plate_mesh_triangles:
  "\<exists>m vs. create_plate w l t = Inr (m, vs) \<and>
     length (vectors m) = 12 \<and>
     (\<forall>i<12. length (vectors m ! i) = 3 \<and>
        (\<forall>j<3. \<exists>row. getitem vs (plate_faces ! i ! j) = Inr row \<and>
           vectors m ! i ! j = map round32 row \<and>
           (round32 w = Fin w \<and> round32 l = Fin l \<and> round32 t = Fin t \<longrightarrow>
              vectors m ! i ! j = map Fin row)))"
proof -
  let ?vs = "plate_vertices w l t"
  let ?m = "\<lparr>vectors = map (map (\<lambda>v. map round32 (?vs ! nat v))) plate_faces\<rparr>"
  have len: "length (vectors ?m) = 12"
    using faces_shape by simp
  have "length (vectors ?m ! n) = 3 \<and>
        (\<forall>c<3. \<exists>row. getitem ?vs (plate_faces ! n ! c) = Inr row \<and>
           vectors ?m ! n ! c = map round32 row \<and>
           (round32 w = Fin w \<and> round32 l = Fin l \<and> round32 t = Fin t \<longrightarrow>
              vectors ?m ! n ! c = map Fin row))"
    if n: "n < 12" for n
  proof (intro conjI allI impI)
    from n faces_shape have face: "plate_faces ! n \<in> set plate_faces"
      and flen: "length (plate_faces ! n) = 3"
      by simp_all
    from n faces_shape show "length (vectors ?m ! n) = 3"
      by simp
    fix c :: nat
    assume c: "c < 3"
    let ?row = "?vs ! nat (plate_faces ! n ! c)"
    from c flen have "plate_faces ! n ! c \<in> set (plate_faces ! n)"
      by simp
    with face faces_in_range
    have lo: "0 \<le> plate_faces ! n ! c" and hi: "plate_faces ! n ! c < int (length ?vs)"
      by (auto simp add: length_plate_vertices)
    then have get: "getitem ?vs (plate_faces ! n ! c) = Inr ?row"
      by (rule getitem_in_bounds)
    from n c flen faces_shape have stored: "vectors ?m ! n ! c = map round32 ?row"
      by simp
    from lo hi have "?row \<in> set ?vs"
      by simp
    then have "round32 w = Fin w \<and> round32 l = Fin l \<and> round32 t = Fin t \<longrightarrow>
        vectors ?m ! n ! c = map Fin ?row"
      using stored plate_vertices_exact [of w l t] by simp
    with get stored
    show "\<exists>row. getitem ?vs (plate_faces ! n ! c) = Inr row \<and>
           vectors ?m ! n ! c = map round32 row \<and>
           (round32 w = Fin w \<and> round32 l = Fin l \<and> round32 t = Fin t \<longrightarrow>
              vectors ?m ! n ! c = map Fin row)"
      by blast
  qed
  with len create_plate_lookup [of w l t] show ?thesis
    by blast
qed

text \<open>Triangle 2, slot 1 of a 100 x 100 x 10 plate is vertex 5, the point (100, 0, 10).\<close>

theorem create_plate_mesh_triangles_witness:
  "(2::nat) < 12 \<and> (1::nat) < 3 \<and> plate_faces ! 2 ! 1 = 5 \<and>
   round32 100 = Fin 100 \<and> round32 10 = Fin 10 \<and>
   (\<exists>m vs. create_plate 100 100 10 = Inr (m, vs) \<and>
      getitem vs 5 = Inr [100, 0, 10] \<and>
      vectors m ! 2 ! 1 = [Fin 100, Fin 0, Fin 10])"
proof -
  have f: "plate_faces ! 2 ! 1 = 5"
    by (simp add: plate_faces_def)
  have exact: "round32 100 = Fin 100 \<and> round32 100 = Fin 100 \<and> round32 10 = Fin 10"
    by (simp add: round32_100 round32_10)
  have two: "(2::nat) < 12" and one: "(1::nat) < 3"
    by simp_all
  from create_plate_mesh_triangles [of 100 100 10]
  obtain m vs where r: "create_plate 100 100 10 = Inr (m, vs)"
    and tri: "\<forall>i<12. length (vectors m ! i) = 3 \<and>
        (\<forall>j<3. \<exists>row. getitem vs (plate_faces ! i ! j) = Inr row \<and>
           vectors m ! i ! j = map round32 row \<and>
           (round32 100 = Fin 100 \<and> round32 100 = Fin 100 \<and> round32 10 = Fin 10 \<longrightarrow>
              vectors m ! i ! j = map Fin row))"
    by blast
  from tri two one obtain row where row: "getitem vs (plate_faces ! 2 ! 1) = Inr row"
    and st: "round32 100 = Fin 100 \<and> round32 100 = Fin 100 \<and> round32 10 = Fin 10 \<longrightarrow>
              vectors m ! 2 ! 1 = map Fin row"
    by blast
  from r have vs: "vs = plate_vertices 100 100 10"
    by (simp add: create_plate_lookup)
  from row f vs have rw: "row = [100, 0, 10]"
    by (simp add: getitem_def plate_vertices_def)
  from row f rw have g5: "getitem vs 5 = Inr [100, 0, 10]"
    by simp
  from st exact rw have v21: "vectors m ! 2 ! 1 = [Fin 100, Fin 0, Fin 10]"
    by simp
  from exact have e100: "round32 100 = Fin 100" and e10: "round32 10 = Fin 10"
    by simp_all
  from r g5 v21 have "\<exists>m vs. create_plate 100 100 10 = Inr (m, vs) \<and>
      getitem vs 5 = Inr [100, 0, 10] \<and>
      vectors m ! 2 ! 1 = [Fin 100, Fin 0, Fin 10]"
    by blast
  with two one f e100 e10 show ?thesis
    by (intro conjI)
qed

text \<open>
  A 100 x 100 plate of thickness 0.1 (the float of that literal): the first point of
  triangle 2 is vertex 4, the point (0, 0, 0.1), and its z coordinate in the mesh is the
  binary32 number 0.10000000149011612, not the thickness.
\<close>

theorem create_plate_mesh_triangles_counterexample:
  "round64 (1 / 10) = Fin (3602879701896397 / 36028797018963968) \<and>
   getitem (snd (projr (create_plate 100 100 (3602879701896397 / 36028797018963968)))) (plate_faces ! 2 ! 0)
     = Inr [0, 0, 3602879701896397 / 36028797018963968] \<and>
   vectors (fst (projr (create_plate 100 100 (3602879701896397 / 36028797018963968)))) ! 2 ! 0
     = [Fin 0, Fin 0, Fin (13421773 / 134217728)] \<and>
   [Fin 0, Fin 0, Fin (13421773 / 134217728)] \<noteq> map Fin [0, 0, 3602879701896397 / 36028797018963968]"
  by (simp add: create_plate_lookup plate_faces_def plate_vertices_def getitem_def
      round64_0_1 round32_zero round32_0_1)

text \<open>
  C10. The face array has 12 rows of 3 indices, every index lies in 0..7, the vertex array
  has 8 rows, so every lookup vertices[face[j]] of the filling loop is in bounds and
  create_plate never raises IndexError.
\<close>

theorem faces_indices_in_bounds:
  "length plate_faces = 12 \<and>
   length (plate_vertices w l t) = 8 \<and>
   (\<forall>face \<in> set plate_faces. length face = 3 \<and>
      (\<forall>v \<in> set face. 0 \<le> v \<and> v < 8 \<and>
         getitem (plate_vertices w l t) v = Inr (plate_vertices w l t ! nat v))) \<and>
   (\<exists>m vs. create_plate w l t = Inr (m, vs))"
proof -
  have "getitem (plate_vertices w l t) v = Inr (plate_vertices w l t ! nat v)"
    if "face \<in> set plate_faces" and "v \<in> set face" for face v
  proof -
    from that faces_in_range have "0 \<le> v" and "v < int (length (plate_vertices w l t))"
      by (auto simp add: length_plate_vertices)
    then show ?thesis
      by (rule getitem_in_bounds)
  qed
  with faces_shape faces_in_range length_plate_vertices [of w l t] create_plate_lookup [of w l t]
  show ?thesis
    by auto
qed

text \<open>Index 7 of the face (3, 7, 6) is in bounds and reads the corner (0, l, t).\<close>

theorem faces_indices_in_bounds_witness:
  "[3, 7, 6] \<in> set plate_faces \<and> (7::int) \<in> set [3, 7, 6] \<and> (0::int) \<le> 7 \<and> (7::int) < 8 \<and>
   getitem (plate_vertices 100 100 10) 7 = Inr [0, 100, 10]"
proof -
  have mem: "[3, 7, 6] \<in> set plate_faces" "(7::int) \<in> set [3, 7, 6]"
    by (simp_all add: plate_faces_def)
  from faces_indices_in_bounds [of 100 100 10]
  have "\<forall>face \<in> set plate_faces. length face = 3 \<and>
      (\<forall>k \<in> set face. 0 \<le> k \<and> k < 8 \<and>
         getitem (plate_vertices 100 100 10) k = Inr (plate_vertices 100 100 10 ! nat k))"
    by simp
  with mem have "getitem (plate_vertices 100 100 10) 7 = Inr (plate_vertices 100 100 10 ! nat 7)"
    by blast
  then have "getitem (plate_vertices 100 100 10) 7 = Inr [0, 100, 10]"
    by (simp add: plate_vertices_def)
  with mem show ?thesis
    by simp
qed

subsection \<open>Outline\<close>

text \<open>
  C6. For the vertex array of create_plate, whatever the dimensions, create_dxf_from_numpy
  adds exactly 4 lines. Their start points are the X,Y coordinates of vertices 0, 1, 2, 3
  in this order, and the end point of each line is the start point of the next one, the
  last line ending where the first starts: the closed outline of the bottom face.
\<close>

theorem create_dxf_outline:
  "\<exists>m vs segs. create_plate w l t = Inr (m, vs) \<and>
     create_dxf_from_numpy vs = Inr segs \<and>
     segs = [([0, 0], [w, 0]), ([w, 0], [w, l]), ([w, l], [0, l]), ([0, l], [0, 0])] \<and>
     length segs = 4 \<and>
     map fst segs = map (take 2) (take 4 vs) \<and>
     map snd segs = rotate1 (map fst segs)"
  by (simp add: create_plate_lookup plate_vertices_def create_dxf_from_numpy_def getitem_def upt_rec)

subsection \<open>Preview\<close>

text \<open>
  Facts about an array of rows of three entries laid end to end, and about the index
  ranges with step 3.
\<close>

lemma concat_rows3_nth:
  "\<forall>r \<in> set xss. length r = 3 \<Longrightarrow> n < length xss \<Longrightarrow> c < 3 \<Longrightarrow>
     concat xss ! (3 * n + c) = xss ! n ! c"
proof (induction xss arbitrary: n)
  case Nil
  then show ?case by simp
next
  case (Cons r rs)
  show ?case
  proof (cases n)
    case 0
    with Cons.prems show ?thesis
      by (simp add: nth_append)
  next
    case (Suc q)
    with Cons.prems have "concat rs ! (3 * q + c) = rs ! q ! c"
      by (intro Cons.IH) simp_all
    with Suc Cons.prems show ?thesis
      by (simp add: nth_append)
  qed
qed

lemma length_concat_rows3: "\<forall>r \<in> set xss. length r = 3 \<Longrightarrow> length (concat xss) = 3 * length xss"
  by (induction xss) simp_all

lemma py_range_3_length: "a < 3 \<Longrightarrow> length (py_range a (3 * n) 3) = n"
  by (simp add: py_range_def)

lemma py_range_3_nth: "a < 3 \<Longrightarrow> q < n \<Longrightarrow> py_range a (3 * n) 3 ! q = 3 * q + a"
  using py_range_3_length [of a n] by (simp add: py_range_def)

lemma row3_eq: "length r = 3 \<Longrightarrow> [r ! 0, r ! 1, r ! 2] = r"
  by (cases r; cases "tl r"; cases "tl (tl r)") (auto simp add: numeral_2_eq_2)

text \<open>The trace built from any mesh that has three points of three coordinates per triangle.\<close>

lemma mesh_to_plotly_lengths:
  assumes tris: "\<forall>tri \<in> set (vectors pm). length tri = 3"
  shows "length (x (mesh_to_plotly pm op)) = 3 * length (vectors pm) \<and>
         length (y (mesh_to_plotly pm op)) = 3 * length (vectors pm) \<and>
         length (z (mesh_to_plotly pm op)) = 3 * length (vectors pm) \<and>
         length (i (mesh_to_plotly pm op)) = length (vectors pm) \<and>
         length (j (mesh_to_plotly pm op)) = length (vectors pm) \<and>
         length (k (mesh_to_plotly pm op)) = length (vectors pm)"
  using length_concat_rows3 [OF tris]
  by (simp add: mesh_to_plotly_def Let_def py_range_3_length)

lemma mesh_to_plotly_indices:
  assumes tris: "\<forall>tri \<in> set (vectors pm). length tri = 3"
    and q: "q < length (vectors pm)"
  shows "i (mesh_to_plotly pm op) ! q = 3 * q \<and>
         j (mesh_to_plotly pm op) ! q = 3 * q + 1 \<and>
         k (mesh_to_plotly pm op) ! q = 3 * q + 2"
  using length_concat_rows3 [OF tris] q
  by (simp add: mesh_to_plotly_def Let_def py_range_3_nth)

lemma mesh_to_plotly_coords:
  assumes tris: "\<forall>tri \<in> set (vectors pm). length tri = 3"
    and pts: "\<forall>tri \<in> set (vectors pm). \<forall>p \<in> set tri. length p = 3"
    and q: "q < length (vectors pm)" and c: "c < 3"
  shows "[x (mesh_to_plotly pm op) ! (3 * q + c),
          y (mesh_to_plotly pm op) ! (3 * q + c),
          z (mesh_to_plotly pm op) ! (3 * q + c)] = vectors pm ! q ! c"
proof -
  let ?rows = "concat (vectors pm)"
  from q c length_concat_rows3 [OF tris] have lt: "3 * q + c < length ?rows"
    by simp
  have row: "?rows ! (3 * q + c) = vectors pm ! q ! c"
    using tris q c by (rule concat_rows3_nth)
  from q tris have "length (vectors pm ! q) = 3"
    by simp
  with c have "vectors pm ! q ! c \<in> set (vectors pm ! q)"
    by simp
  moreover from q have "vectors pm ! q \<in> set (vectors pm)"
    by simp
  ultimately have "length (vectors pm ! q ! c) = 3"
    using pts by blast
  then have "[vectors pm ! q ! c ! 0, vectors pm ! q ! c ! 1, vectors pm ! q ! c ! 2]
      = vectors pm ! q ! c"
    by (rule row3_eq)
  with lt row show ?thesis
    by (simp add: mesh_to_plotly_def Let_def)
qed

lemma create_plate_shape:
  "create_plate w l t = Inr (m, vs) \<Longrightarrow>
     length (vectors m) = 12 \<and> (\<forall>tri \<in> set (vectors m). length tri = 3 \<and> (\<forall>p \<in> set tri. length p = 3))"
  by (auto simp add: create_plate_lookup plate_faces_def plate_vertices_def)

text \<open>
  C7. For the mesh of create_plate, mesh_to_plotly lays the 12 x 3 triangle points end to
  end into x, y and z sequences of 36 entries each, one per point of each triangle, and
  builds index lists i, j, k of length 12 with (i[n], j[n], k[n]) = (3n, 3n+1, 3n+2); the
  entries of x, y, z at 3n, 3n+1 and 3n+2 are the three points of triangle n in the order
  of its face. The opacity is the one passed in.
\<close>

theorem mesh_to_plotly_flatten:
  "\<exists>m vs. create_plate w l t = Inr (m, vs) \<and>
     length (x (mesh_to_plotly m op)) = 36 \<and>
     length (y (mesh_to_plotly m op)) = 36 \<and>
     length (z (mesh_to_plotly m op)) = 36 \<and>
     length (i (mesh_to_plotly m op)) = 12 \<and>
     length (j (mesh_to_plotly m op)) = 12 \<and>
     length (k (mesh_to_plotly m op)) = 12 \<and>
     opacity (mesh_to_plotly m op) = op \<and>
     (\<forall>n<12.
        i (mesh_to_plotly m op) ! n = 3 * n \<and>
        j (mesh_to_plotly m op) ! n = 3 * n + 1 \<and>
        k (mesh_to_plotly m op) ! n = 3 * n + 2 \<and>
        (\<forall>c<3. [x (mesh_to_plotly m op) ! (3 * n + c),
                 y (mesh_to_plotly m op) ! (3 * n + c),
                 z (mesh_to_plotly m op) ! (3 * n + c)] = vectors m ! n ! c))"
proof -
  obtain m vs where r: "create_plate w l t = Inr (m, vs)"
    by (simp add: create_plate_lookup)
  from create_plate_shape [OF r]
  have len: "length (vectors m) = 12"
    and tris: "\<forall>tri \<in> set (vectors m). length tri = 3"
    and pts: "\<forall>tri \<in> set (vectors m). \<forall>p \<in> set tri. length p = 3"
    by simp_all
  have op: "opacity (mesh_to_plotly m op) = op"
    by (simp add: mesh_to_plotly_def Let_def)
  from mesh_to_plotly_lengths [OF tris, of op] len mesh_to_plotly_indices [OF tris, of _ op]
    mesh_to_plotly_coords [OF tris pts, of _ _ op] r op
  show ?thesis
    by (intro exI [of _ m] exI [of _ vs]) simp
qed

text \<open>Triangle 2 of a 100 x 100 x 10 plate: indices (6, 7, 8), and entry 7 is the point (100, 0, 10).\<close>

theorem mesh_to_plotly_flatten_witness:
  "(2::nat) < 12 \<and> (1::nat) < 3 \<and>
   (\<exists>m vs. create_plate 100 100 10 = Inr (m, vs) \<and>
      i (mesh_to_plotly m 1) ! 2 = 6 \<and> j (mesh_to_plotly m 1) ! 2 = 7 \<and>
      k (mesh_to_plotly m 1) ! 2 = 8 \<and>
      [x (mesh_to_plotly m 1) ! 7, y (mesh_to_plotly m 1) ! 7, z (mesh_to_plotly m 1) ! 7]
        = vectors m ! 2 ! 1 \<and>
      vectors m ! 2 ! 1 = [Fin 100, Fin 0, Fin 10])"
proof -
  from mesh_to_plotly_flatten [of 100 100 10 1]
  obtain m vs where r: "create_plate 100 100 10 = Inr (m, vs)"
    and all: "\<forall>n<12.
        i (mesh_to_plotly m 1) ! n = 3 * n \<and>
        j (mesh_to_plotly m 1) ! n = 3 * n + 1 \<and>
        k (mesh_to_plotly m 1) ! n = 3 * n + 2 \<and>
        (\<forall>c<3. [x (mesh_to_plotly m 1) ! (3 * n + c),
                 y (mesh_to_plotly m 1) ! (3 * n + c),
                 z (mesh_to_plotly m 1) ! (3 * n + c)] = vectors m ! n ! c)"
    by blast
  have two: "(2::nat) < 12" and one: "(1::nat) < 3"
    by simp_all
  from all two have a2: "i (mesh_to_plotly m 1) ! 2 = 3 * 2 \<and>
        j (mesh_to_plotly m 1) ! 2 = 3 * 2 + 1 \<and>
        k (mesh_to_plotly m 1) ! 2 = 3 * 2 + 2 \<and>
        (\<forall>c<3. [x (mesh_to_plotly m 1) ! (3 * 2 + c),
                 y (mesh_to_plotly m 1) ! (3 * 2 + c),
                 z (mesh_to_plotly m 1) ! (3 * 2 + c)] = vectors m ! 2 ! c)"
    by blast
  with one have "[x (mesh_to_plotly m 1) ! (3 * 2 + 1),
                 y (mesh_to_plotly m 1) ! (3 * 2 + 1),
                 z (mesh_to_plotly m 1) ! (3 * 2 + 1)] = vectors m ! 2 ! 1"
    by blast
  then have c: "[x (mesh_to_plotly m 1) ! 7, y (mesh_to_plotly m 1) ! 7, z (mesh_to_plotly m 1) ! 7]
        = vectors m ! 2 ! 1"
    by simp
  from r have v: "vectors m ! 2 ! 1 = [Fin 100, Fin 0, Fin 10]"
    by (auto simp add: create_plate_lookup plate_faces_def plate_vertices_def
        round32_zero round32_100 round32_10)
  from a2 c v r show ?thesis
    by simp
qed


end
